theory Spec2Isabelle
  imports Complex_Main "HOL-Library.Word"
begin

unbundle bit_operations_syntax

section \<open>Python values and library functions used by the tool\<close>

text \<open>
  The embedding follows \<^verbatim>\<open>tool.py\<close> and \<^verbatim>\<open>effects.py\<close> function by function.
  Python integers are \<open>int\<close>. A Python \<^verbatim>\<open>float\<close> is modelled by the real number it
  stands for: the rounding of binary64 arithmetic, its overflow to infinity and NaN are
  outside the model, so every statement below about a computed duty or colour is a
  statement in exact arithmetic. What is kept of the float range is the exception that
  Python raises when an integer too large for a float is converted to one. Exceptions
  are values of the type \<open>error\<close>; a function that may raise returns \<open>error + 'a\<close> with
  \<open>Inl\<close> for the exception. Output written with \<^verbatim>\<open>print\<close> and the pauses of
  \<^verbatim>\<open>time.sleep\<close> change no value that the properties below speak about and are left
  out.
\<close>

datatype error =
    RuntimeError string
  | ValueError
  | IndexError
  | AttributeError
  | OSError
  | OverflowError
  | SystemExit int

text \<open>
  A number passed where the code takes an \<^verbatim>\<open>int\<close> or a \<^verbatim>\<open>float\<close>. In arithmetic
  with a float an integer is converted first, and the conversion raises
  \<^verbatim>\<open>OverflowError\<close> from \<open>2\<^sup>1\<^sup>0\<^sup>2\<^sup>4 - 2\<^sup>9\<^sup>7\<^sup>0\<close> on, the first integer that rounds past
  the largest float.
\<close>

datatype number = PyInt int | PyFloat real

definition number_value :: "number \<Rightarrow> real" where
  "number_value x = (case x of PyInt n \<Rightarrow> of_int n | PyFloat r \<Rightarrow> r)"

definition as_float :: "number \<Rightarrow> error + real" where
  "as_float x =
     (case x of
        PyInt n \<Rightarrow> if 2 ^ 1024 - 2 ^ 970 \<le> \<bar>n\<bar> then Inl OverflowError else Inr (of_int n)
      | PyFloat r \<Rightarrow> Inr r)"

text \<open>
  \<^verbatim>\<open>round(x)\<close> on a float rounds to the nearest integer and a tie to the even
  neighbour.
\<close>

definition py_round :: "real \<Rightarrow> int" where
  "py_round x =
     (let f = \<lfloor>x\<rfloor>; d = x - of_int f
      in if d < 1 / 2 then f
         else if 1 / 2 < d then f + 1
         else if even f then f else f + 1)"

text \<open>\<^verbatim>\<open>xs[i]\<close>: a negative index counts from the end, an index out of range raises.\<close>

definition py_index :: "'a list \<Rightarrow> int \<Rightarrow> error + 'a" where
  "py_index xs i =
     (if 0 \<le> i \<and> i < int (length xs) then Inr (xs ! nat i)
      else if i < 0 \<and> - int (length xs) \<le> i then Inr (xs ! nat (int (length xs) + i))
      else Inl IndexError)"

text \<open>\<^verbatim>\<open>math.sqrt\<close> raises \<^verbatim>\<open>ValueError\<close> on a negative argument.\<close>

definition math_sqrt :: "real \<Rightarrow> error + real" where
  "math_sqrt x = (if x < 0 then Inl ValueError else Inr (sqrt x))"

subsection \<open>The regular expression of the RPM polynomial\<close>

text \<open>
  \<^verbatim>\<open>re.fullmatch(r"([-+0-9.e]+)x\^2 ([-+0-9.e]+)x ([-+0-9.e]+)", s)\<close>. The characters
  \<^verbatim>\<open>x\<close>, \<^verbatim>\<open>^\<close> and the blank are not in the class of the groups, so each group is the
  longest run of class characters and the match, where there is one, is unique.
\<close>

definition number_chars :: "char list" where
  "number_chars = ''-+0123456789.e''"

definition strip_prefix :: "string \<Rightarrow> string \<Rightarrow> string option" where
  "strip_prefix p s = (if take (length p) s = p then Some (drop (length p) s) else None)"

definition quadratic_regex :: "string \<Rightarrow> (string \<times> string \<times> string) option" where
  "quadratic_regex s =
     (let g1 = takeWhile (\<lambda>c. c \<in> set number_chars) s;
          r1 = dropWhile (\<lambda>c. c \<in> set number_chars) s
      in if g1 = [] then None
         else case strip_prefix ''x^2 '' r1 of
           None \<Rightarrow> None
         | Some s2 \<Rightarrow>
            (let g2 = takeWhile (\<lambda>c. c \<in> set number_chars) s2;
                 r2 = dropWhile (\<lambda>c. c \<in> set number_chars) s2
             in if g2 = [] then None
                else case strip_prefix ''x '' r2 of
                  None \<Rightarrow> None
                | Some g3 \<Rightarrow>
                   if g3 \<noteq> [] \<and> list_all (\<lambda>c. c \<in> set number_chars) g3
                   then Some (g1, g2, g3) else None))"

subsection \<open>\<^verbatim>\<open>float\<close> of a string\<close>

text \<open>
  \<^verbatim>\<open>float(s)\<close> on the strings the regular expression lets through (signs, digits, the
  point and a lower-case \<^verbatim>\<open>e\<close>): an optional sign, digits with an optional point
  (at least one digit before or after it), an optional exponent \<^verbatim>\<open>e\<close>, sign, digits.
  Anything else raises \<^verbatim>\<open>ValueError\<close>. The value is the decimal number read exactly.
\<close>

definition is_digit :: "char \<Rightarrow> bool" where
  "is_digit c \<longleftrightarrow> c \<in> set ''0123456789''"

definition digit_val :: "char \<Rightarrow> nat" where
  "digit_val c = of_char c - 48"

definition digits_value :: "string \<Rightarrow> nat" where
  "digits_value ds = foldl (\<lambda>n c. 10 * n + digit_val c) 0 ds"

definition split_sign :: "string \<Rightarrow> bool \<times> string" where
  "split_sign s =
     (case s of
        [] \<Rightarrow> (False, s)
      | c # r \<Rightarrow> if c = CHR ''-'' then (True, r)
                 else if c = CHR ''+'' then (False, r) else (False, s))"

definition float_exponent :: "string \<Rightarrow> int option" where
  "float_exponent s =
     (case s of
        [] \<Rightarrow> Some 0
      | c # r \<Rightarrow>
          if c = CHR ''e'' then
            (let (neg, ds) = split_sign r
             in if ds \<noteq> [] \<and> list_all is_digit ds
                then Some (if neg then - int (digits_value ds) else int (digits_value ds))
                else None)
          else None)"

definition pow10 :: "int \<Rightarrow> real" where
  "pow10 e = (if 0 \<le> e then 10 ^ nat e else 1 / 10 ^ nat (- e))"

definition py_float :: "string \<Rightarrow> error + real" where
  "py_float s =
     (let (neg, s1) = split_sign s;
          ip = takeWhile is_digit s1;
          s2 = dropWhile is_digit s1;
          dot = (s2 \<noteq> [] \<and> hd s2 = CHR ''.'');
          s3 = (if dot then tl s2 else s2);
          fp = (if dot then takeWhile is_digit s3 else []);
          s4 = (if dot then dropWhile is_digit s3 else s3)
      in if ip = [] \<and> fp = [] then Inl ValueError
         else case float_exponent s4 of
           None \<Rightarrow> Inl ValueError
         | Some e \<Rightarrow>
             Inr ((if neg then - 1 else 1) * real (digits_value (ip @ fp))
                   * pow10 (e - int (length fp))))"

section \<open>The device table\<close>

text \<open>
  An RPM model is the tuple of the table: the polynomial as text, the lowest duty with
  a reading, the lowest duty at which the fan starts, and the RPM at full duty.
  \<^verbatim>\<open>class Model\<close> is a record; \<^verbatim>\<open>None\<close> for the blade counts or the RPM models is
  \<open>None\<close>.
\<close>

type_synonym rpm_model = "string \<times> int \<times> int \<times> int"

record model =
  profiles :: "string list"
  fans :: "string list"
  fan_blades :: "int list option"
  rpm_models :: "rpm_model option list option"

text \<open>\<^verbatim>\<open>Model()\<close> with the defaults of its constructor.\<close>

definition default_model :: model where
  "default_model =
     \<lparr>profiles = [''Lowest''], fans = [''Fan''], fan_blades = None, rpm_models = None\<rparr>"

text \<open>The entry of \<^verbatim>\<open>MODELS\<close> for the ASUS Vivobook S 15.\<close>

definition vivobook :: model where
  "vivobook =
     \<lparr>profiles = [''Whisper'', ''Standard'', ''Performance'', ''Full speed''],
      fans = [''Left Fan'', ''Right Fan''],
      fan_blades = Some [97, 97],
      rpm_models = Some [Some (''-0.06309x^2 +48.64x -174.4'', 17, 22, 8340),
                         Some (''-0.07043x^2 +56.12x -2255'', 55, 59, 8400)]\<rparr>"

definition MODELS :: "(string \<times> model) list" where
  "MODELS = [(''ASUS Vivobook S 15'', vivobook)]"

section \<open>Duty for a target RPM\<close>

text \<open>
  \<^verbatim>\<open>model = None if info.rpm_models is None else info.rpm_models[fan_id]\<close>
\<close>

definition fan_rpm_model :: "model \<Rightarrow> int \<Rightarrow> error + rpm_model option" where
  "fan_rpm_model info fan_id =
     (case rpm_models info of None \<Rightarrow> Inr None | Some ms \<Rightarrow> py_index ms fan_id)"

text \<open>
  The match and the three conversions \<^verbatim>\<open>float(m.group(i))\<close>. Without a match \<^verbatim>\<open>m\<close> is
  \<^verbatim>\<open>None\<close> and \<^verbatim>\<open>m.group\<close> raises \<^verbatim>\<open>AttributeError\<close>.
\<close>

definition quadratic_coefficients :: "string \<Rightarrow> error + real \<times> real \<times> real" where
  "quadratic_coefficients s =
     (case quadratic_regex s of
        None \<Rightarrow> Inl AttributeError
      | Some (g1, g2, g3) \<Rightarrow>
          (case py_float g1 of
             Inl e \<Rightarrow> Inl e
           | Inr a \<Rightarrow>
               (case py_float g2 of
                  Inl e \<Rightarrow> Inl e
                | Inr b \<Rightarrow>
                    (case py_float g3 of
                       Inl e \<Rightarrow> Inl e
                     | Inr c \<Rightarrow> Inr (a, b, c)))))"

text \<open>
  The \<^verbatim>\<open>try\<close> block for a target that is a float already: the root of the quadratic,
  or 256 when \<^verbatim>\<open>math.sqrt\<close> raises \<^verbatim>\<open>ValueError\<close>. The conversion of an integer
  target in \<^verbatim>\<open>c - rpm\<close> happens inside the block too, and its \<^verbatim>\<open>OverflowError\<close> is
  not caught: \<open>speed_for_rpm\<close> below passes it on.
\<close>

definition solved_speed :: "real \<Rightarrow> real \<Rightarrow> real \<Rightarrow> real \<Rightarrow> real" where
  "solved_speed a b c rpm =
     (case math_sqrt (b * b - 4 * a * (c - rpm)) of
        Inl e \<Rightarrow> 256
      | Inr s \<Rightarrow> (- b + s) / (2 * a))"

definition speed_for_rpm :: "model \<Rightarrow> int \<Rightarrow> number \<Rightarrow> error + int" where
  "speed_for_rpm info fan_id rpm =
     (case fan_rpm_model info fan_id of
        Inl e \<Rightarrow> Inl e
      | Inr None \<Rightarrow> Inl (RuntimeError ''No fan RPM model defined'')
      | Inr (Some m) \<Rightarrow>
          if number_value rpm = 0 then Inr 0
          else case quadratic_coefficients (fst m) of
            Inl e \<Rightarrow> Inl e
          | Inr (a, b, c) \<Rightarrow>
              if 0 \<le> a then Inl (RuntimeError ''Convex model unimplemented'')
              else case as_float rpm of
                Inl e \<Rightarrow> Inl e
              | Inr r \<Rightarrow> Inr (min (max (py_round (solved_speed a b c r)) 0) 255))"

text \<open>
  The polynomial of an RPM model, \<open>rpm = a * duty\<^sup>2 + b * duty + c\<close>: what the calibration
  fits and what \<open>speed_for_rpm\<close> inverts. The source has no function that evaluates it.
\<close>

definition rpm_for_duty :: "real \<Rightarrow> real \<Rightarrow> real \<Rightarrow> int \<Rightarrow> real" where
  "rpm_for_duty a b c duty = a * (of_int duty)\<^sup>2 + b * of_int duty + c"




section \<open>The fire effect's colour\<close>

text \<open>
  The body of the loop of \<^verbatim>\<open>kb_backlight_fire\<close> between the sensor reads and the
  comparison with the last colour, with \<^verbatim>\<open>min_temp = 40\<close>, \<^verbatim>\<open>blue_temp = 55\<close> and
  \<^verbatim>\<open>temp_range = 30\<close>.
\<close>

definition fire_rgb :: "real \<Rightarrow> int list" where
  "fire_rgb temp =
     (let frac = min (max ((temp - 40) / 30) 0) 1;
          frac2 = min (max ((temp - 55) / 30) 0) 1;
          r = frac * 1.0;
          g = frac * frac * 0.5;
          b = frac2
      in [py_round (r * 255), py_round (g * 255), py_round (b * 255)])"

section \<open>The environment and the effects of the tool\<close>

text \<open>
  What the tool does to the machine goes through two doors: the \<^verbatim>\<open>ioctl\<close> that sends
  a request to the I2C bus, and \<^verbatim>\<open>os.pread\<close> on a thermal zone's file. The world
  holds what the machine will answer (\<open>bus_replies\<close>, \<open>sensor_reads\<close>), the requests
  handed to the bus so far (\<open>bus_log\<close>, oldest first), and the listing of
  \<^verbatim>\<open>/sys/class/thermal\<close> with the content of each entry's \<^verbatim>\<open>type\<close> file.

  A request is the list of messages that the calls \<^verbatim>\<open>write\<close> and \<^verbatim>\<open>read\<close> on a
  \<^verbatim>\<open>Request\<close> collect: \<open>Wr\<close> with the bytes to send, \<open>Rd\<close> with the length of
  the buffer to fill.
\<close>

datatype seg = Wr "int list" | Rd nat

record request =
  addr :: int
  msgs :: "seg list"

text \<open>
  The answer to one request: the \<^verbatim>\<open>ioctl\<close> raises \<^verbatim>\<open>OSError\<close>, or it succeeds and
  the device has filled the read buffer with these bytes.
\<close>

datatype bus_reply = BusError | BusData "8 word list"

text \<open>
  An entry of \<open>sensor_reads\<close> is what \<^verbatim>\<open>int(os.pread(fd, 20, 0))\<close> evaluates to at the
  next read: the millidegrees, or the exception that the read or the conversion raises.
\<close>

record world =
  bus_replies :: "bus_reply list"
  bus_log :: "request list"
  sensor_reads :: "(error + int) list"
  thermal_dir :: "(string \<times> string) list"

text \<open>
  A call returns a value, raises, or has not returned when the scripted answers of the
  world run out (\<open>Pending\<close>): the loops of the tool never return, and the wait for the
  controller may not. The world comes back in every case, so that what was sent before
  an exception stays visible.
\<close>

datatype 'a outcome = Returned 'a | Raised error | Pending

type_synonym 'a io = "world \<Rightarrow> 'a outcome \<times> world"

definition io_return :: "'a \<Rightarrow> 'a io" where
  "io_return x w = (Returned x, w)"

definition io_raise :: "error \<Rightarrow> 'a io" where
  "io_raise e w = (Raised e, w)"

definition io_bind :: "'a io \<Rightarrow> ('a \<Rightarrow> 'b io) \<Rightarrow> 'b io" where
  "io_bind m f w =
     (case m w of
        (Returned x, w') \<Rightarrow> f x w'
      | (Raised e, w') \<Rightarrow> (Raised e, w')
      | (Pending, w') \<Rightarrow> (Pending, w'))"

definition io_then :: "'a io \<Rightarrow> 'b io \<Rightarrow> 'b io" where
  "io_then m n = io_bind m (\<lambda>_. n)"

definition io_lift :: "error + 'a \<Rightarrow> 'a io" where
  "io_lift r = (case r of Inl e \<Rightarrow> io_raise e | Inr x \<Rightarrow> io_return x)"

fun io_foreach :: "'a list \<Rightarrow> ('a \<Rightarrow> unit io) \<Rightarrow> unit io" where
  "io_foreach [] f = io_return ()"
| "io_foreach (x # xs) f = io_then (f x) (io_foreach xs f)"

lemmas io_defs = io_bind_def io_then_def io_return_def io_raise_def io_lift_def

lemma io_bind_Returned:
  "io_bind m f w = (Returned y, w') \<Longrightarrow> \<exists>x w1. m w = (Returned x, w1) \<and> f x w1 = (Returned y, w')"
  by (auto simp: io_bind_def split: prod.splits outcome.splits)

lemma io_then_Returned:
  "io_then m n w = (Returned y, w') \<Longrightarrow> \<exists>x w1. m w = (Returned x, w1) \<and> n w1 = (Returned y, w')"
  unfolding io_then_def by (rule io_bind_Returned)

section \<open>Bus transport\<close>

definition EC_ADDR :: int where "EC_ADDR = 0x5b"
definition FAN_ADDR :: int where "FAN_ADDR = 0x76"

text \<open>
  \<^verbatim>\<open>Request(addr).write(...).read(...)\<close>: \<^verbatim>\<open>bytes(data)\<close> in \<^verbatim>\<open>write\<close> raises
  \<^verbatim>\<open>ValueError\<close> when a value is not a byte, before anything is sent.
\<close>

definition is_byte :: "int \<Rightarrow> bool" where
  "is_byte v \<longleftrightarrow> 0 \<le> v \<and> v < 256"

definition seg_ok :: "seg \<Rightarrow> bool" where
  "seg_ok s = (case s of Wr bs \<Rightarrow> list_all is_byte bs | Rd n \<Rightarrow> True)"

definition new_request :: "int \<Rightarrow> seg list \<Rightarrow> error + request" where
  "new_request a ss =
     (if list_all seg_ok ss then Inr \<lparr>addr = a, msgs = ss\<rparr> else Inl ValueError)"

definition read_length :: "seg list \<Rightarrow> nat" where
  "read_length ss = sum_list (map (\<lambda>s. case s of Wr bs \<Rightarrow> 0 | Rd n \<Rightarrow> n) ss)"

text \<open>
  \<^verbatim>\<open>send\<close>: the request is handed to the \<^verbatim>\<open>ioctl\<close> and the next answer of the bus
  decides. The caller's buffer keeps its length: a short answer leaves the zero bytes
  it was created with.
\<close>

definition send :: "request \<Rightarrow> 8 word list io" where
  "send r w =
     (case bus_replies w of
        [] \<Rightarrow> (Pending, w\<lparr>bus_log := bus_log w @ [r]\<rparr>)
      | BusError # rs \<Rightarrow>
          (Raised OSError, w\<lparr>bus_replies := rs, bus_log := bus_log w @ [r]\<rparr>)
      | BusData bs # rs \<Rightarrow>
          (Returned (take (read_length (msgs r)) (bs @ replicate (read_length (msgs r)) 0)),
           w\<lparr>bus_replies := rs, bus_log := bus_log w @ [r]\<rparr>))"

definition transfer :: "int \<Rightarrow> seg list \<Rightarrow> 8 word list io" where
  "transfer a ss = io_bind (io_lift (new_request a ss)) send"

lemma send_Returned:
  "send r w = (Returned bs, w') \<Longrightarrow> length (bus_replies w') < length (bus_replies w)"
  by (auto simp: send_def split: list.splits bus_reply.splits)

lemma transfer_Returned:
  "transfer a ss w = (Returned bs, w') \<Longrightarrow> length (bus_replies w') < length (bus_replies w)"
  by (auto simp: transfer_def io_defs dest: send_Returned split: sum.splits)

section \<open>EC register protocol\<close>

definition ecrb :: "int \<Rightarrow> int \<Rightarrow> int io" where
  "ecrb maj mn =
     io_bind (transfer EC_ADDR [Wr [0x10, maj, mn], Wr [0x11], Rd 1])
       (\<lambda>res. io_return (uint (res ! 0)))"

definition ecwb :: "int \<Rightarrow> int \<Rightarrow> int \<Rightarrow> unit io" where
  "ecwb maj mn v =
     io_bind (transfer EC_ADDR [Wr [0x10, maj, mn], Wr [0x11, v]]) (\<lambda>_. io_return ())"

lemma ecrb_Returned:
  "ecrb maj mn w = (Returned v, w') \<Longrightarrow> length (bus_replies w') < length (bus_replies w)"
  by (auto simp: ecrb_def io_bind_def io_return_def dest: transfer_Returned
      split: prod.splits outcome.splits)

text \<open>
  \<^verbatim>\<open>ec_settle\<close> polls until the controller reads 0. Every poll that returns uses up
  one answer of the bus, which is why the recursion ends; a controller that stays busy
  for all the answers there are leaves the call \<open>Pending\<close>.
\<close>

function ec_settle :: "unit io" where
  "ec_settle w =
     (case ecrb 0xc4 0x30 w of
        (Returned v, w') \<Rightarrow> if v = 0 then (Returned (), w') else ec_settle w'
      | (Raised e, w') \<Rightarrow> (Raised e, w')
      | (Pending, w') \<Rightarrow> (Pending, w'))"
  by pat_completeness auto
termination
  by (relation "measure (\<lambda>w. length (bus_replies w))") (auto dest: ecrb_Returned [OF sym])

declare ec_settle.simps [simp del]

definition eccr :: "int \<Rightarrow> int \<Rightarrow> int io" where
  "eccr a1 a2 =
     io_then ec_settle
    (io_then (ecwb 0xc4 0x31 a2)
    (io_then (ecwb 0xc4 0x30 a1)
    (io_then ec_settle
    (io_bind (ecrb 0xc4 0x32) (\<lambda>res.
     io_then (ecwb 0xc4 0x32 0x00)
    (io_return res))))))"

definition eccw :: "int \<Rightarrow> int \<Rightarrow> int \<Rightarrow> unit io" where
  "eccw a1 a2 v =
     io_then ec_settle
    (io_then (ecwb 0xc4 0x31 a2)
    (io_then (ecwb 0xc4 0x32 v)
    (io_then (ecwb 0xc4 0x30 a1)
     ec_settle)))"

section \<open>EC control functions\<close>

text \<open>
  The checks of a fan or profile index against the device table in \<^verbatim>\<open>get_fan_rpm\<close>,
  \<^verbatim>\<open>set_fan_profile\<close> and \<^verbatim>\<open>set_fan_speed\<close> only print a warning; the functions are
  called with the device known (\<open>main\<close> exits otherwise).
\<close>

definition get_fan_rpm :: "int \<Rightarrow> int io" where
  "get_fan_rpm fan_id =
     io_bind (transfer FAN_ADDR [Wr [0x22, fan_id + 1], Rd 3])
       (\<lambda>arr. io_return (uint (arr ! 1) + uint (arr ! 2) * 256))"

definition FAN_MODE_AUTO :: int where "FAN_MODE_AUTO = 0"
definition FAN_MODE_MANUAL :: int where "FAN_MODE_MANUAL = 2"

definition set_fan_mode :: "int \<Rightarrow> unit io" where
  "set_fan_mode mode = eccw 0x01 0x82 mode"

definition set_fan_profile :: "int \<Rightarrow> unit io" where
  "set_fan_profile profile =
     io_bind (transfer FAN_ADDR [Wr [0x24, profile]]) (\<lambda>_. io_return ())"

definition set_fan_speed :: "int \<Rightarrow> int \<Rightarrow> unit io" where
  "set_fan_speed fan_id speed =
     io_then (eccw 0x01 0x8c fan_id) (eccw 0x01 0x8a speed)"

definition send_soc_temp :: "real \<Rightarrow> unit io" where
  "send_soc_temp temp =
     (let t = min (max (py_round (temp * 10)) 0) 2000;
          lo = t AND 0xff;
          hi = drop_bit 8 t
      in io_bind (transfer FAN_ADDR [Wr [0x20, 0x01, 0x02, lo, hi]]) (\<lambda>_. io_return ()))"

definition set_suspend_mode :: "int \<Rightarrow> unit io" where
  "set_suspend_mode mode =
     io_bind (transfer FAN_ADDR [Wr [0x23, mode]]) (\<lambda>_. io_return ())"

definition BACKLIGHT_SOLID :: int where "BACKLIGHT_SOLID = 0x01"

definition set_keyboard_backlight :: "int \<Rightarrow> int \<Rightarrow> int \<Rightarrow> int \<Rightarrow> int \<Rightarrow> unit io" where
  "set_keyboard_backlight r g b mode period =
     (let unk = 0x55
      in io_bind
           (transfer FAN_ADDR
              [Wr ([0x51, 0x07, 0x66, 0x00, 0x10, 0x00, 0xb3, mode, r, g, b, unk, period]
                   @ replicate 9 0)])
           (\<lambda>_. io_return ()))"

section \<open>Thermal zones and the two loops\<close>

definition THERMAL_ZONES :: "string list" where
  "THERMAL_ZONES =
     [''cpu0-0-top-thermal'', ''cpu1-0-top-thermal'', ''cpu2-0-top-thermal'',
      ''gpuss-0-thermal'']"

definition py_strip :: "string \<Rightarrow> string \<Rightarrow> string" where
  "py_strip chars s =
     rev (dropWhile (\<lambda>c. c \<in> set chars) (rev (dropWhile (\<lambda>c. c \<in> set chars) s)))"

definition startswith :: "string \<Rightarrow> string \<Rightarrow> bool" where
  "startswith s p \<longleftrightarrow> take (length p) s = p"

text \<open>
  \<^verbatim>\<open>open_thermal_zones\<close>: the file descriptor of an entry is modelled by its position
  in the listing. Failures of \<^verbatim>\<open>os.listdir\<close> and of opening a file are not modelled.
\<close>

definition open_thermal_zones :: "string list \<Rightarrow> nat list io" where
  "open_thermal_zones zones w =
     (Returned
        (map fst
           (filter (\<lambda>(fd, name, zone_type).
                      startswith name ''thermal_zone''
                      \<and> py_strip [CHR '' '', CHR 0x0A, CHR 0x00] zone_type \<in> set zones)
              (zip [0 ..< length (thermal_dir w)] (thermal_dir w)))),
      w)"

text \<open>\<^verbatim>\<open>int(os.pread(fd, 20, 0))\<close>\<close>

definition pread_int :: "nat \<Rightarrow> int io" where
  "pread_int fd w =
     (case sensor_reads w of
        [] \<Rightarrow> (Pending, w)
      | Inl e # rs \<Rightarrow> (Raised e, w\<lparr>sensor_reads := rs\<rparr>)
      | Inr m # rs \<Rightarrow> (Returned m, w\<lparr>sensor_reads := rs\<rparr>))"

text \<open>
  The inner loop of both effects:
  \<^verbatim>\<open>for fd in zones: temp = max(temp, int(os.pread(fd, 20, 0)) / 1000)\<close>
\<close>

fun hottest :: "real \<Rightarrow> nat list \<Rightarrow> real io" where
  "hottest temp [] = io_return temp"
| "hottest temp (fd # fds) =
     io_bind (pread_int fd) (\<lambda>m. hottest (max temp (of_int m / 1000)) fds)"

text \<open>
  What the loops leave unchanged, and what each turn uses up: the facts behind the
  termination of the two loops below.
\<close>

lemma send_soc_temp_Returned:
  "send_soc_temp temp w = (Returned u, w') \<Longrightarrow>
     length (bus_replies w') < length (bus_replies w)"
  by (auto simp: send_soc_temp_def Let_def io_bind_def io_return_def dest: transfer_Returned
      split: prod.splits outcome.splits)

lemma pread_int_bus [simp]:
  "bus_replies (snd (pread_int fd w)) = bus_replies w"
  "bus_log (snd (pread_int fd w)) = bus_log w"
  by (auto simp: pread_int_def split: list.splits sum.splits)

lemma hottest_bus:
  "bus_replies (snd (hottest temp fds w)) = bus_replies w \<and>
   bus_log (snd (hottest temp fds w)) = bus_log w"
proof (induction fds arbitrary: temp w)
  case Nil
  show ?case by (simp add: io_return_def)
next
  case (Cons fd fds)
  show ?case
  proof (cases "pread_int fd w")
    case (Pair r w1)
    have b: "bus_replies w1 = bus_replies w" "bus_log w1 = bus_log w"
      using pread_int_bus [of fd w] Pair by simp_all
    show ?thesis
      using Cons.IH [of _ w1] Pair b
      by (cases r) (simp_all add: io_bind_def)
  qed
qed

lemma hottest_world:
  "hottest temp fds w = (r, w1) \<Longrightarrow>
     bus_replies w1 = bus_replies w \<and> bus_log w1 = bus_log w"
  using hottest_bus [of temp fds w] by simp

lemma send_sensor: "sensor_reads (snd (send r w)) = sensor_reads w"
  by (simp add: send_def split: list.splits bus_reply.splits)

lemma transfer_sensor: "sensor_reads (snd (transfer a ss w)) = sensor_reads w"
  using send_sensor
  by (simp add: transfer_def io_bind_def io_lift_def io_raise_def io_return_def
      split: sum.splits)

lemma set_keyboard_backlight_sensor:
  "set_keyboard_backlight r g b mode period w = (res, w') \<Longrightarrow>
     sensor_reads w' = sensor_reads w"
  using transfer_sensor
    [of FAN_ADDR "[Wr ([0x51, 0x07, 0x66, 0x00, 0x10, 0x00, 0xb3, mode, r, g, b, 0x55, period]
                   @ replicate 9 0)]" w]
  by (auto simp: set_keyboard_backlight_def Let_def io_bind_def io_return_def
      split: prod.splits outcome.splits)

lemma pread_int_Returned:
  "pread_int fd w = (Returned m, w') \<Longrightarrow> length (sensor_reads w') < length (sensor_reads w)"
  by (auto simp: pread_int_def split: list.splits sum.splits)

lemma hottest_sensor_le:
  "hottest temp fds w = (r, w') \<Longrightarrow> length (sensor_reads w') \<le> length (sensor_reads w)"
proof (induction fds arbitrary: temp w)
  case Nil
  then show ?case by (simp add: io_return_def)
next
  case (Cons fd fds)
  show ?case
  proof (cases "pread_int fd w")
    case (Pair r1 w1)
    show ?thesis
    proof (cases r1)
      case (Returned m)
      with Pair Cons.prems have "hottest (max temp (of_int m / 1000)) fds w1 = (r, w')"
        by (simp add: io_bind_def)
      then have "length (sensor_reads w') \<le> length (sensor_reads w1)" by (rule Cons.IH)
      moreover have "length (sensor_reads w1) < length (sensor_reads w)"
        using Pair Returned by (auto dest: pread_int_Returned)
      ultimately show ?thesis by simp
    next
      case (Raised e)
      with Pair Cons.prems show ?thesis
        by (auto simp: io_bind_def pread_int_def split: list.splits sum.splits)
    next
      case Pending
      with Pair Cons.prems show ?thesis
        by (auto simp: io_bind_def pread_int_def split: list.splits sum.splits)
    qed
  qed
qed

lemma hottest_Returned_sensor:
  assumes "hottest temp fds w = (Returned t, w')" and "fds \<noteq> []"
  shows "length (sensor_reads w') < length (sensor_reads w)"
proof (cases fds)
  case Nil
  with assms(2) show ?thesis by simp
next
  case (Cons fd fds')
  show ?thesis
  proof (cases "pread_int fd w")
    case (Pair r1 w1)
    show ?thesis
    proof (cases r1)
      case (Returned m)
      with Pair Cons assms(1) have "hottest (max temp (of_int m / 1000)) fds' w1 = (Returned t, w')"
        by (simp add: io_bind_def)
      then have "length (sensor_reads w') \<le> length (sensor_reads w1)" by (rule hottest_sensor_le)
      moreover have "length (sensor_reads w1) < length (sensor_reads w)"
        using Pair Returned by (auto dest: pread_int_Returned)
      ultimately show ?thesis by simp
    next
      case (Raised e)
      with Pair Cons assms(1) show ?thesis by (simp add: io_bind_def)
    next
      case Pending
      with Pair Cons assms(1) show ?thesis by (simp add: io_bind_def)
    qed
  qed
qed

text \<open>
  The \<^verbatim>\<open>while True\<close> of \<^verbatim>\<open>temperature_report_loop\<close>. It never returns: it raises, or
  it is still running when the scripted answers are used up (each report uses one
  answer of the bus).
\<close>

function report_loop :: "nat list \<Rightarrow> unit io" where
  "report_loop zones w =
     (case hottest 0 zones w of
        (Returned temp, w1) \<Rightarrow>
          (case send_soc_temp temp w1 of
             (Returned u, w2) \<Rightarrow> report_loop zones w2
           | (Raised e, w2) \<Rightarrow> (Raised e, w2)
           | (Pending, w2) \<Rightarrow> (Pending, w2))
      | (Raised e, w1) \<Rightarrow> (Raised e, w1)
      | (Pending, w1) \<Rightarrow> (Pending, w1))"
  by pat_completeness auto
termination
  by (relation "measure (\<lambda>(zones, w). length (bus_replies w))")
     (auto dest!: hottest_world [OF sym] send_soc_temp_Returned [OF sym])

declare report_loop.simps [simp del]

definition temperature_report_loop :: "string list \<Rightarrow> unit io" where
  "temperature_report_loop zones =
     io_bind (open_thermal_zones zones)
       (\<lambda>fds. if length fds = 0 then io_return () else report_loop fds)"

text \<open>
  The \<^verbatim>\<open>while True\<close> of \<^verbatim>\<open>kb_backlight_fire\<close>, with \<open>cur\<close> the colour list of the
  source. \<^verbatim>\<open>kb_backlight_fire\<close> enters the loop with at least one zone only, and each
  turn then uses up sensor readings; the first clause is there to make the function
  total.
\<close>

function fire_loop :: "nat list \<Rightarrow> int list \<Rightarrow> unit io" where
  "fire_loop zones cur w =
     (if zones = [] then (Pending, w)
      else case hottest 0 zones w of
        (Returned temp, w1) \<Rightarrow>
          (let new = fire_rgb temp
           in if new \<noteq> cur then
                (case set_keyboard_backlight (new ! 0) (new ! 1) (new ! 2) BACKLIGHT_SOLID 7 w1 of
                   (Returned u, w2) \<Rightarrow> fire_loop zones new w2
                 | (Raised e, w2) \<Rightarrow> (Raised e, w2)
                 | (Pending, w2) \<Rightarrow> (Pending, w2))
              else fire_loop zones cur w1)
      | (Raised e, w1) \<Rightarrow> (Raised e, w1)
      | (Pending, w1) \<Rightarrow> (Pending, w1))"
  by pat_completeness auto
termination
  by (relation "measure (\<lambda>(zones, cur, w). length (sensor_reads w))")
     (auto dest!: hottest_Returned_sensor [OF sym] set_keyboard_backlight_sensor [OF sym])

declare fire_loop.simps [simp del]

definition kb_backlight_fire :: "string list \<Rightarrow> unit io" where
  "kb_backlight_fire zones =
     io_bind (open_thermal_zones zones)
       (\<lambda>fds. if length fds = 0 then io_return () else fire_loop fds [256, 256, 256])"

section \<open>Calibration\<close>

definition py_range :: "int \<Rightarrow> int \<Rightarrow> int \<Rightarrow> error + int list" where
  "py_range start stop step =
     (if step = 0 then Inl ValueError
      else if 0 < step
        then Inr (map (\<lambda>k. start + int k * step) [0 ..< nat ((stop - start + step - 1) div step)])
        else Inr (map (\<lambda>k. start + int k * step)
                    [0 ..< nat ((start - stop - step - 1) div (- step))]))"

text \<open>
  The dictionaries of \<^verbatim>\<open>measure_fan_model\<close> are keyed by the fan ids and read at
  those keys only; they are modelled as functions from the fan id. \<^verbatim>\<open>np.polyfit\<close> is a
  parameter: what it computes is printed and nothing else, but it may raise.
\<close>

type_synonym samples = "int \<Rightarrow> (int \<times> int) list"

fun read_max_speeds :: "int list \<Rightarrow> (int \<Rightarrow> int) \<Rightarrow> (int \<Rightarrow> int) io" where
  "read_max_speeds [] speeds = io_return speeds"
| "read_max_speeds (j # js) speeds =
     io_bind (get_fan_rpm j) (\<lambda>rpm. read_max_speeds js (speeds(j := rpm)))"

fun sample_fans :: "int \<Rightarrow> int list \<Rightarrow> samples \<Rightarrow> samples io" where
  "sample_fans i [] data = io_return data"
| "sample_fans i (j # js) data =
     io_bind (get_fan_rpm j) (\<lambda>rpm. sample_fans i js (data(j := data j @ [(i, rpm)])))"

fun sweep_down :: "int list \<Rightarrow> int list \<Rightarrow> samples \<Rightarrow> samples io" where
  "sweep_down [] fan_ids data = io_return data"
| "sweep_down (i # rest) fan_ids data =
     io_then (io_foreach fan_ids (\<lambda>j. set_fan_speed j i))
       (io_bind (sample_fans i fan_ids data) (\<lambda>data'. sweep_down rest fan_ids data'))"

text \<open>
  \<^verbatim>\<open>firsts = {j: data[j][:, 0].min() for j in fan_ids}\<close>: for a fan with no non-zero
  reading the array is empty and has one dimension, and the index raises
  \<^verbatim>\<open>IndexError\<close>.
\<close>

fun first_duties :: "int list \<Rightarrow> samples \<Rightarrow> (int \<Rightarrow> int) \<Rightarrow> error + (int \<Rightarrow> int)" where
  "first_duties [] data firsts = Inr firsts"
| "first_duties (j # js) data firsts =
     (if data j = [] then Inl IndexError
      else first_duties js data (firsts(j := Min (set (map fst (data j))))))"

fun find_spins :: "int \<Rightarrow> int list \<Rightarrow> (int \<Rightarrow> int) \<Rightarrow> (int \<Rightarrow> int) io" where
  "find_spins i [] first_spins = io_return first_spins"
| "find_spins i (j # js) first_spins =
     (if first_spins j = 255
      then io_bind (get_fan_rpm j)
             (\<lambda>rpm. find_spins i js (if rpm \<noteq> 0 then first_spins(j := i) else first_spins))
      else find_spins i js first_spins)"

fun sweep_up :: "int list \<Rightarrow> int list \<Rightarrow> (int \<Rightarrow> int) \<Rightarrow> (int \<Rightarrow> int) io" where
  "sweep_up [] fan_ids first_spins = io_return first_spins"
| "sweep_up (i # rest) fan_ids first_spins =
     io_then (io_foreach fan_ids (\<lambda>j. set_fan_speed j i))
       (io_bind (find_spins i fan_ids first_spins)
          (\<lambda>spins. if 255 \<notin> set (map spins fan_ids) then io_return spins
                    else sweep_up rest fan_ids spins))"

type_synonym fit = "real \<times> real \<times> real"

fun fit_models ::
  "((int \<times> int) list \<Rightarrow> error + fit) \<Rightarrow> int list \<Rightarrow> samples \<Rightarrow> error + (int \<times> fit) list" where
  "fit_models polyfit [] data = Inr []"
| "fit_models polyfit (j # js) data =
     (case polyfit (data j) of
        Inl e \<Rightarrow> Inl e
      | Inr abc \<Rightarrow>
          (case fit_models polyfit js data of
             Inl e \<Rightarrow> Inl e
           | Inr fits \<Rightarrow> Inr ((j, abc) # fits)))"

type_synonym report = "(int \<times> fit \<times> int \<times> int \<times> int) list"

text \<open>
  \<^verbatim>\<open>measure_fan_model\<close> between the two mode switches, and the whole function. The
  function prints what it finds; the model returns it, one tuple for each fan: the fan
  id, the fitted coefficients, the first duty with a reading, the first duty at which
  the fan starts, and the RPM at full duty. \<^verbatim>\<open>min\<close> of no value raises
  \<^verbatim>\<open>ValueError\<close>.
\<close>

definition calibration_sweeps ::
  "((int \<times> int) list \<Rightarrow> error + fit) \<Rightarrow> int list \<Rightarrow> int \<Rightarrow> report io" where
  "calibration_sweeps polyfit fan_ids step =
     io_then (io_foreach fan_ids (\<lambda>j. set_fan_speed j 255))
    (io_bind (read_max_speeds fan_ids (\<lambda>j. 0)) (\<lambda>max_speeds.
     io_bind (io_lift (py_range 254 0 (- 1 * step))) (\<lambda>duties.
     io_bind (sweep_down duties fan_ids (\<lambda>j. [])) (\<lambda>data0.
     let data = (\<lambda>j. filter (\<lambda>x. snd x \<noteq> 0) (data0 j))
     in io_bind (io_lift (first_duties fan_ids data (\<lambda>j. 0))) (\<lambda>firsts.
        io_bind (io_lift (if fan_ids = [] then Inl ValueError
                          else py_range (Min (set (map firsts fan_ids))) 255 step)) (\<lambda>ups.
        io_bind (sweep_up ups fan_ids (\<lambda>j. 255)) (\<lambda>first_spins.
        io_bind (io_lift (fit_models polyfit fan_ids data)) (\<lambda>fits.
        io_return (map (\<lambda>(j, abc). (j, abc, firsts j, first_spins j, max_speeds j)) fits)))))))))"

definition measure_fan_model ::
  "((int \<times> int) list \<Rightarrow> error + fit) \<Rightarrow> int list \<Rightarrow> int \<Rightarrow> report io" where
  "measure_fan_model polyfit fan_ids step =
     io_then (set_fan_mode FAN_MODE_MANUAL)
    (io_bind (calibration_sweeps polyfit fan_ids step) (\<lambda>found.
     io_then (set_fan_mode FAN_MODE_AUTO)
    (io_return found)))"

section \<open>The command line\<close>

subsection \<open>\<^verbatim>\<open>int\<close> of a string\<close>

text \<open>
  \<^verbatim>\<open>int(s)\<close> in base 10 on ASCII text: blanks around the number are dropped, then an
  optional sign and digits, which single underscores may separate. \<^verbatim>\<open>int(s, 16)\<close> is
  applied to hexadecimal digits only.
\<close>

definition is_space :: "char \<Rightarrow> bool" where
  "is_space c \<longleftrightarrow> c \<in> set [CHR '' '', CHR 0x09, CHR 0x0A, CHR 0x0B, CHR 0x0C, CHR 0x0D]"

fun int_digits :: "string \<Rightarrow> string option" where
  "int_digits [] = None"
| "int_digits [c] = (if is_digit c then Some [c] else None)"
| "int_digits (c # d # r) =
     (if \<not> is_digit c then None
      else if d = CHR ''_'' then map_option ((#) c) (int_digits r)
      else map_option ((#) c) (int_digits (d # r)))"

definition py_int :: "string \<Rightarrow> error + int" where
  "py_int s =
     (let (neg, ds) = split_sign (rev (dropWhile is_space (rev (dropWhile is_space s))))
      in case int_digits ds of
           None \<Rightarrow> Inl ValueError
         | Some d \<Rightarrow> Inr (if neg then - int (digits_value d) else int (digits_value d)))"

definition is_hex_digit :: "char \<Rightarrow> bool" where
  "is_hex_digit c \<longleftrightarrow> c \<in> set ''0123456789abcdefABCDEF''"

definition hex_digit_val :: "char \<Rightarrow> nat" where
  "hex_digit_val c =
     (if is_digit c then of_char c - 48
      else if c \<in> set ''abcdef'' then of_char c - 87
      else of_char c - 55)"

definition py_int16 :: "string \<Rightarrow> error + int" where
  "py_int16 s =
     (if s \<noteq> [] \<and> list_all is_hex_digit s
      then Inr (int (foldl (\<lambda>n c. 16 * n + hex_digit_val c) 0 s))
      else Inl ValueError)"

subsection \<open>Printing the fan speeds\<close>

definition blades :: "model \<Rightarrow> int \<Rightarrow> error + int" where
  "blades info fan_id =
     (case fan_blades info of
        None \<Rightarrow> Inl (RuntimeError ''No fan blade count defined'')
      | Some bl \<Rightarrow> py_index bl fan_id)"

definition freq_for_rpm :: "model \<Rightarrow> int \<Rightarrow> int \<Rightarrow> error + real" where
  "freq_for_rpm info fan_id rpm =
     (case blades info fan_id of
        Inl e \<Rightarrow> Inl e
      | Inr n \<Rightarrow> Inr (of_int rpm * of_int n / 60))"

definition print_fan_speeds :: "model \<Rightarrow> unit io" where
  "print_fan_speeds info =
     io_foreach [0 ..< length (fans info)]
       (\<lambda>i. io_bind (get_fan_rpm (int i)) (\<lambda>rpm.
          if fan_blades info \<noteq> None
          then io_bind (io_lift (freq_for_rpm info (int i) rpm)) (\<lambda>hz. io_return ())
          else io_bind (get_fan_rpm (int i)) (\<lambda>rpm2. io_return ())))"

subsection \<open>\<^verbatim>\<open>main\<close>\<close>

text \<open>
  \<^verbatim>\<open>info\<close> and \<^verbatim>\<open>i2c_fd\<close> are the globals that \<^verbatim>\<open>init\<close> sets. Every branch of the
  chain of comparisons falls through to the final \<^verbatim>\<open>return 1\<close>.
\<close>

definition parse_colour :: "string \<Rightarrow> (string list \<times> int) option" where
  "parse_colour colour =
     (if length colour = 3 \<and> list_all is_hex_digit colour
        then Some (map (\<lambda>c. [c]) colour, 17)
      else if length colour = 6 \<and> list_all is_hex_digit colour
        then Some ([take 2 colour, take 2 (drop 2 colour), drop 4 colour], 1)
      else None)"

fun colour_values :: "string list \<Rightarrow> int \<Rightarrow> error + int list" where
  "colour_values [] fac = Inr []"
| "colour_values (x # xs) fac =
     (case py_int16 x of
        Inl e \<Rightarrow> Inl e
      | Inr v \<Rightarrow> (case colour_values xs fac of Inl e \<Rightarrow> Inl e | Inr vs \<Rightarrow> Inr (v * fac # vs)))"

definition main ::
  "model option \<Rightarrow> nat option \<Rightarrow> ((int \<times> int) list \<Rightarrow> error + fit) \<Rightarrow> string list \<Rightarrow> int io"
where
  "main info_opt i2c_fd polyfit args =
     (if length args = 0 then io_return 0
      else case info_opt of
        None \<Rightarrow> io_raise (SystemExit 1)
      | Some info \<Rightarrow>
         if i2c_fd = None then io_raise (SystemExit 1)
         else if args ! 0 = ''get-speed'' then
           io_then (print_fan_speeds info) (io_return 1)
         else if args ! 0 = ''set-speed'' then
           io_bind (io_lift (py_index args 1)) (\<lambda>a1.
           io_bind (io_lift (py_int a1)) (\<lambda>speed.
           io_then
             (if rpm_models info \<noteq> None
              then io_foreach [0 ..< length (fans info)]
                     (\<lambda>i. io_bind (io_lift (speed_for_rpm info (int i) (PyInt speed)))
                             (\<lambda>duty. set_fan_speed (int i) duty))
              else io_foreach [0 ..< length (fans info)]
                     (\<lambda>i. set_fan_speed (int i) speed))
             (io_return 1)))
         else if args ! 0 = ''mode'' then
           io_bind (io_lift (py_index args 1)) (\<lambda>a1.
           io_then
             (if a1 = ''auto'' then set_fan_mode FAN_MODE_AUTO
              else if a1 = ''manual'' then set_fan_mode FAN_MODE_MANUAL
              else io_return ())
             (io_return 1))
         else if args ! 0 = ''profile'' then
           io_bind (io_lift (py_index args 1)) (\<lambda>a1.
           io_bind (io_lift (py_int a1)) (\<lambda>profile.
           io_then
             (if profile < int (length (profiles info))
              then io_bind (io_lift (py_index (profiles info) profile)) (\<lambda>name. io_return ())
              else io_return ())
          (io_then (set_fan_profile profile)
             (io_return 1))))
         else if args ! 0 = ''temp-loop'' then
           io_then (temperature_report_loop THERMAL_ZONES) (io_return 1)
         else if args ! 0 = ''suspend'' then
           io_bind (io_lift (py_index args 1)) (\<lambda>a1.
           io_bind (io_lift (py_int a1)) (\<lambda>mode.
           io_then (set_suspend_mode mode) (io_return 1)))
         else if args ! 0 = ''measure-rpm'' then
           io_then (measure_fan_model polyfit (map int [0 ..< length (fans info)]) 1)
             (io_return 1)
         else if args ! 0 = ''kb'' then
           io_bind (io_lift (py_index args 1)) (\<lambda>a1.
           case parse_colour (py_strip ''#'' a1) of
             None \<Rightarrow> io_return 1
           | Some (parts, fac) \<Rightarrow>
               io_bind (io_lift (colour_values parts fac)) (\<lambda>colour.
               io_then
                 (set_keyboard_backlight (colour ! 0) (colour ! 1) (colour ! 2) BACKLIGHT_SOLID 7)
                 (io_return 1)))
         else io_return 1)"

text \<open>The last line of the script: \<^verbatim>\<open>sys.exit(main(sys.argv[1:]))\<close>.\<close>

definition tool_exit ::
  "model option \<Rightarrow> nat option \<Rightarrow> ((int \<times> int) list \<Rightarrow> error + fit) \<Rightarrow> string list \<Rightarrow> unit io"
where
  "tool_exit info_opt i2c_fd polyfit args =
     io_bind (main info_opt i2c_fd polyfit args) (\<lambda>status. io_raise (SystemExit status))"

section \<open>Evaluation lemmas\<close>

lemmas parse_defs = quadratic_coefficients_def quadratic_regex_def number_chars_def
  strip_prefix_def py_float_def split_sign_def is_digit_def digits_value_def digit_val_def
  float_exponent_def pow10_def Let_def

lemma py_round_of_int [simp]: "py_round (of_int n) = n"
  by (simp add: py_round_def)

lemma py_round_numeral [simp]: "py_round (numeral k) = numeral k"
  using py_round_of_int [of "numeral k"] by simp

lemma py_round_zero [simp]: "py_round 0 = 0"
  using py_round_of_int [of 0] by simp

lemma py_round_half_255: "py_round (255 / 2) = 128"
  by (simp add: py_round_def)

lemma vivobook_left_coefficients:
  "quadratic_coefficients ''-0.06309x^2 +48.64x -174.4'' = Inr (- 0.06309, 48.64, - 174.4)"
  by (simp add: parse_defs)




lemma vivobook_left_model:
  "fan_rpm_model vivobook 0 = Inr (Some (''-0.06309x^2 +48.64x -174.4'', 17, 22, 8340))"
  by (simp add: fan_rpm_model_def vivobook_def py_index_def)





lemma as_float_small: "\<bar>n\<bar> < 2 ^ 1024 - 2 ^ 970 \<Longrightarrow> as_float (PyInt n) = Inr (of_int n)"
  by (simp add: as_float_def)


lemma as_float_4000: "as_float (PyInt 4000) = Inr 4000"
  using as_float_small [of 4000] by simp

section \<open>Properties of \<open>speed_for_rpm\<close>\<close>


lemma speed_for_rpm_model:
  assumes "fan_rpm_model info fan_id = Inr (Some m)"
    and "quadratic_coefficients (fst m) = Inr (a, b, c)"
    and "a < 0" and "as_float rpm = Inr r" and "r \<noteq> 0"
  shows "speed_for_rpm info fan_id rpm =
           Inr (min (max (py_round (solved_speed a b c r)) 0) 255)"
proof -
  have "number_value rpm = r"
    using assms(4) by (cases rpm) (simp_all add: as_float_def number_value_def split: if_splits)
  with assms show ?thesis by (simp add: speed_for_rpm_def)
qed

lemma solved_speed_rising:
  assumes "a < 0" and "0 \<le> 2 * a * of_int d + b"
  shows "solved_speed a b c (rpm_for_duty a b c d) = of_int d"
proof -
  let ?x = "of_int d :: real"
  have disc: "b * b - 4 * a * (c - rpm_for_duty a b c d) = (2 * a * ?x + b)\<^sup>2"
    by (simp add: rpm_for_duty_def power2_eq_square algebra_simps)
  have "sqrt ((2 * a * ?x + b)\<^sup>2) = 2 * a * ?x + b"
    using assms(2) by simp
  then have "solved_speed a b c (rpm_for_duty a b c d) = (- b + (2 * a * ?x + b)) / (2 * a)"
    by (simp add: solved_speed_def math_sqrt_def disc)
  also have "\<dots> = ?x"
    using assms(1) by simp
  finally show ?thesis .
qed




lemma round_trip_on_rising_branch:
  assumes "fan_rpm_model info fan_id = Inr (Some m)"
    and "quadratic_coefficients (fst m) = Inr (a, b, c)"
    and "a < 0"
    and "fst (snd m) \<le> d" and "d \<le> 254" and "0 \<le> d"
    and "0 \<le> 2 * a * of_int d + b"
    and "rpm_for_duty a b c d \<noteq> 0"
  shows "speed_for_rpm info fan_id (PyFloat (rpm_for_duty a b c d)) = Inr d"
proof -
  have "solved_speed a b c (rpm_for_duty a b c d) = of_int d"
    using assms(3,7) by (rule solved_speed_rising)
  moreover have "speed_for_rpm info fan_id (PyFloat (rpm_for_duty a b c d)) =
      Inr (min (max (py_round (solved_speed a b c (rpm_for_duty a b c d))) 0) 255)"
    using assms(1-3,8) by (intro speed_for_rpm_model) (simp_all add: as_float_def)
  ultimately show ?thesis
    using assms(5,6) by simp
qed




text \<open>
  For the two fans of the Vivobook every duty of the domain lies on the rising branch
  and has a positive RPM, so the round trip is exact on the whole domain of each model.
\<close>

lemma vivobook_right_coefficients:
  "quadratic_coefficients ''-0.07043x^2 +56.12x -2255'' = Inr (- 0.07043, 56.12, - 2255)"
  by (simp add: parse_defs)

lemma vivobook_right_model:
  "fan_rpm_model vivobook 1 = Inr (Some (''-0.07043x^2 +56.12x -2255'', 55, 59, 8400))"
  by (simp add: fan_rpm_model_def vivobook_def py_index_def)

lemma vivobook_left_round_trip:
  assumes "17 \<le> d" and "d \<le> 254"
  shows "speed_for_rpm vivobook 0 (PyFloat (rpm_for_duty (- 0.06309) 48.64 (- 174.4) d)) = Inr d"
proof -
  let ?x = "of_int d :: real"
  have x: "17 \<le> ?x" "?x \<le> 254"
    using assms by simp_all
  have slope: "0 \<le> 2 * (- 0.06309) * ?x + 48.64"
    using x by simp
  have "0 < - 0.06309 * ?x + 48.64"
    using x by simp
  then have "17 * (- 0.06309 * ?x + 48.64) \<le> ?x * (- 0.06309 * ?x + 48.64)"
    using x by (intro mult_right_mono) simp_all
  moreover have "174.4 < 17 * (- 0.06309 * ?x + 48.64)"
    using x by simp
  ultimately have "0 < ?x * (- 0.06309 * ?x + 48.64) - 174.4"
    by simp
  then have "rpm_for_duty (- 0.06309) 48.64 (- 174.4) d \<noteq> 0"
    by (simp add: rpm_for_duty_def power2_eq_square algebra_simps)
  with slope assms show ?thesis
    by (intro round_trip_on_rising_branch [where m = "(''-0.06309x^2 +48.64x -174.4'', 17, 22, 8340)"])
       (simp_all add: vivobook_left_model vivobook_left_coefficients)
qed

lemma vivobook_right_round_trip:
  assumes "55 \<le> d" and "d \<le> 254"
  shows "speed_for_rpm vivobook 1 (PyFloat (rpm_for_duty (- 0.07043) 56.12 (- 2255) d)) = Inr d"
proof -
  let ?x = "of_int d :: real"
  have x: "55 \<le> ?x" "?x \<le> 254"
    using assms by simp_all
  have slope: "0 \<le> 2 * (- 0.07043) * ?x + 56.12"
    using x by simp
  have "0 \<le> (?x - 55) * (- 0.07043 * (?x + 55) + 56.12)"
    using x by (intro mult_nonneg_nonneg) simp_all
  moreover have "rpm_for_duty (- 0.07043) 56.12 (- 2255) d =
      (?x - 55) * (- 0.07043 * (?x + 55) + 56.12) + 618.54925"
    by (simp add: rpm_for_duty_def power2_eq_square field_simps)
  ultimately have "rpm_for_duty (- 0.07043) 56.12 (- 2255) d \<noteq> 0"
    by simp
  with slope assms show ?thesis
    by (intro round_trip_on_rising_branch [where m = "(''-0.07043x^2 +56.12x -2255'', 55, 59, 8400)"])
       (simp_all add: vivobook_right_model vivobook_right_coefficients)
qed

text \<open>
  The range of the result. For a fan with an RPM model with \<open>a < 0\<close> and a target that
  is a float, or an integer in the float range, the function returns an integer from 0
  to 255.
\<close>

lemma speed_for_rpm_in_byte_range:
  assumes "fan_rpm_model info fan_id = Inr (Some m)"
    and "quadratic_coefficients (fst m) = Inr (a, b, c)"
    and "a < 0" and "as_float rpm = Inr r"
  shows "\<exists>d. speed_for_rpm info fan_id rpm = Inr d \<and> 0 \<le> d \<and> d \<le> 255"
  using assms by (simp add: speed_for_rpm_def)

lemma speed_for_rpm_in_byte_range_example:
  "\<exists>d. speed_for_rpm vivobook 0 (PyInt 4000) = Inr d \<and> 0 \<le> d \<and> d \<le> 255"
  using speed_for_rpm_in_byte_range
    [of vivobook 0 "(''-0.06309x^2 +48.64x -174.4'', 17, 22, 8340)"
        "- 0.06309" "48.64" "- 174.4" "PyInt 4000" 4000]
  by (simp add: vivobook_left_model vivobook_left_coefficients as_float_4000)

text \<open>
  C6 on the code. The claim is for every target \<open>rpm \<ge> 0\<close>. The target that
  \<^verbatim>\<open>set-speed\<close> passes is an integer of any size, and for one beyond the float range
  the subtraction \<^verbatim>\<open>c - rpm\<close> raises \<^verbatim>\<open>OverflowError\<close>, which the handler for
  \<^verbatim>\<open>ValueError\<close> does not catch: for the left fan of the Vivobook and the target
  \<open>10\<^sup>4\<^sup>0\<^sup>0\<close> the function raises instead of returning 255.
\<close>

theorem C6_huge_target_raises:
  "speed_for_rpm vivobook 0 (PyInt (10 ^ 400)) = Inl OverflowError"
  by (simp add: speed_for_rpm_def vivobook_left_model vivobook_left_coefficients
      as_float_def number_value_def)

text \<open>
  C7, as the code has it. For a fan that has an RPM model the duty for a target of 0 is
  0, whatever the model's polynomial is.
\<close>

theorem C7_zero_rpm_zero_duty:
  assumes "fan_rpm_model info fan_id = Inr (Some m)" and "number_value rpm = 0"
  shows "speed_for_rpm info fan_id rpm = Inr 0"
  using assms by (simp add: speed_for_rpm_def)

theorem C7_zero_rpm_witness:
  "speed_for_rpm vivobook 0 (PyInt 0) = Inr 0"
  using C7_zero_rpm_zero_duty [of vivobook 0 _ "PyInt 0"]
  by (simp add: vivobook_left_model number_value_def)

text \<open>
  C7 as stated fails: the check for a missing model comes first. A device without RPM
  models raises \<^verbatim>\<open>RuntimeError\<close> for its fan 0, and fan index 2 of the Vivobook
  raises \<^verbatim>\<open>IndexError\<close>.
\<close>

theorem C7_counterexample:
  "speed_for_rpm default_model 0 (PyInt 0) = Inl (RuntimeError ''No fan RPM model defined'') \<and>
   speed_for_rpm vivobook 2 (PyInt 0) = Inl IndexError"
  by (simp add: speed_for_rpm_def fan_rpm_model_def default_model_def vivobook_def
      py_index_def)

section \<open>Properties of the fire effect's colour\<close>

lemma fire_rgb_cold: "temp \<le> 40 \<Longrightarrow> fire_rgb temp = [0, 0, 0]"
  by (simp add: fire_rgb_def Let_def max_def min_def)

lemma fire_rgb_hot_red_green:
  "70 \<le> temp \<Longrightarrow> fire_rgb temp ! 0 = 255 \<and> fire_rgb temp ! 1 = 128"
  by (simp add: fire_rgb_def Let_def max_def min_def py_round_half_255)

lemma fire_rgb_blue_off: "temp \<le> 55 \<Longrightarrow> fire_rgb temp ! 2 = 0"
  by (simp add: fire_rgb_def Let_def max_def min_def)

lemma fire_rgb_blue_full: "85 \<le> temp \<Longrightarrow> fire_rgb temp = [255, 128, 255]"
  by (simp add: fire_rgb_def Let_def max_def min_def py_round_half_255)

text \<open>
  C2, as the code has it. Up to 40 degrees the colour is (0, 0, 0); from 70 degrees red
  is 255 and green is 128, its maximum, because green is halved; blue is 0 up to 55
  degrees; from 85 degrees blue is 255 and the colour is (255, 128, 255).
\<close>

theorem C2_fire_colour_ramps:
  "(temp \<le> 40 \<longrightarrow> fire_rgb temp = [0, 0, 0]) \<and>
   (70 \<le> temp \<longrightarrow> fire_rgb temp ! 0 = 255 \<and> fire_rgb temp ! 1 = 128) \<and>
   (temp \<le> 55 \<longrightarrow> fire_rgb temp ! 2 = 0) \<and>
   (85 \<le> temp \<longrightarrow> fire_rgb temp ! 2 = 255 \<and> fire_rgb temp = [255, 128, 255])"
  using fire_rgb_cold [of temp] fire_rgb_hot_red_green [of temp]
    fire_rgb_blue_off [of temp] fire_rgb_blue_full [of temp]
  by simp

theorem C2_fire_colour_witness:
  "fire_rgb 40 = [0, 0, 0] \<and> fire_rgb 55 ! 2 = 0 \<and>
   fire_rgb 85 ! 0 = 255 \<and> fire_rgb 85 ! 1 = 128 \<and> fire_rgb 85 = [255, 128, 255]"
  using C2_fire_colour_ramps [of 40] C2_fire_colour_ramps [of 55] C2_fire_colour_ramps [of 85]
  by simp

text \<open>
  C2 as stated fails: at 70 degrees, and at any higher temperature, the green channel
  is 128, not 255 (and at 70 degrees blue is already 128).
\<close>

theorem C2_counterexample:
  "fire_rgb 70 = [255, 128, 128] \<and> fire_rgb 70 ! 1 \<noteq> 255 \<and> fire_rgb 100 ! 1 = 128"
  by (simp add: fire_rgb_def Let_def py_round_half_255)

section \<open>Worlds for the examples\<close>

definition quiet_world :: world where
  "quiet_world = \<lparr>bus_replies = [], bus_log = [], sensor_reads = [], thermal_dir = []\<rparr>"

text \<open>A bus that answers \<open>n\<close> requests, each with an idle controller and 8208 RPM.\<close>

definition idle_bus :: "nat \<Rightarrow> world" where
  "idle_bus n = \<lparr>bus_replies = replicate n (BusData [0, 0x10, 0x20]), bus_log = [],
     sensor_reads = [], thermal_dir = []\<rparr>"

text \<open>The same bus with an \<^verbatim>\<open>ioctl\<close> that fails after \<open>n\<close> requests.\<close>

definition failing_bus :: "nat \<Rightarrow> world" where
  "failing_bus n = \<lparr>bus_replies = replicate n (BusData [0, 0x10, 0x20]) @ [BusError],
     bus_log = [], sensor_reads = [], thermal_dir = []\<rparr>"

text \<open>A bus on which every fan reads 0 RPM.\<close>

definition stalled_bus :: "nat \<Rightarrow> world" where
  "stalled_bus n = \<lparr>bus_replies = replicate n (BusData [0, 0, 0]), bus_log = [],
     sensor_reads = [], thermal_dir = []\<rparr>"

definition vivobook_thermal :: "(string \<times> string) list" where
  "vivobook_thermal =
     [(''cooling_device0'', ''Processor'' @ [CHR 0x0A]),
      (''thermal_zone0'', ''aoss-0-thermal'' @ [CHR 0x0A]),
      (''thermal_zone1'', ''cpu0-0-top-thermal'' @ [CHR 0x0A]),
      (''thermal_zone2'', ''cpu1-0-top-thermal'' @ [CHR 0x0A]),
      (''thermal_zone3'', ''gpuss-0-thermal'' @ [CHR 0x0A])]"

text \<open>
  Three zones at 42.3, 39.1 and 45.0 degrees, where the second read of the first cycle
  fails.
\<close>

definition failed_read_world :: world where
  "failed_read_world =
     \<lparr>bus_replies = [BusData [], BusData []], bus_log = [],
      sensor_reads = [Inr 42300, Inl OSError, Inr 45000, Inr 42300, Inr 39100, Inr 45000],
      thermal_dir = vivobook_thermal\<rparr>"

definition garbled_read_world :: world where
  "garbled_read_world =
     \<lparr>bus_replies = [BusData [], BusData []], bus_log = [],
      sensor_reads = [Inr 42300, Inr 39100, Inl ValueError, Inr 42300, Inr 39100, Inr 45000],
      thermal_dir = []\<rparr>"

text \<open>One zone that reads 46 degrees three times and then 70 degrees.\<close>

definition steady_world :: world where
  "steady_world =
     \<lparr>bus_replies = [BusData [], BusData [], BusData [], BusData []], bus_log = [],
      sensor_reads = [Inr 46000, Inr 46000, Inr 46000, Inr 70000],
      thermal_dir = []\<rparr>"

definition no_fit :: "(int \<times> int) list \<Rightarrow> error + fit" where
  "no_fit xs = Inr (0, 0, 0)"

section \<open>Properties of the temperature report\<close>




lemma transfer_log:
  "list_all seg_ok ss \<Longrightarrow>
     bus_log (snd (transfer a ss w)) = bus_log w @ [\<lparr>addr = a, msgs = ss\<rparr>]"
  by (simp add: transfer_def new_request_def io_defs send_def
      split: list.splits bus_reply.splits)



lemma hottest_reads:
  "sensor_reads w = map Inr ms @ rest \<Longrightarrow> length ms = length fds \<Longrightarrow>
     hottest temp fds w =
       (Returned (foldl (\<lambda>t m. max t (of_int m / 1000)) temp ms), w\<lparr>sensor_reads := rest\<rparr>)"
proof (induction fds arbitrary: temp ms w)
  case Nil
  then show ?case by (simp add: io_return_def)
next
  case (Cons fd fds)
  then obtain m ms' where ms: "ms = m # ms'" by (cases ms) auto
  with Cons.prems have r: "pread_int fd w = (Returned m, w\<lparr>sensor_reads := map Inr ms' @ rest\<rparr>)"
    by (simp add: pread_int_def)
  have "hottest (max temp (of_int m / 1000)) fds (w\<lparr>sensor_reads := map Inr ms' @ rest\<rparr>) =
      (Returned (foldl (\<lambda>t m. max t (of_int m / 1000)) (max temp (of_int m / 1000)) ms'),
       w\<lparr>sensor_reads := map Inr ms' @ rest, sensor_reads := rest\<rparr>)"
    using Cons.prems ms by (intro Cons.IH) simp_all
  with r ms show ?case by (simp add: io_bind_def)
qed

lemma hottest_raises:
  "sensor_reads w = map Inr ms @ Inl e # rest \<Longrightarrow> length ms < length fds \<Longrightarrow>
     hottest temp fds w = (Raised e, w\<lparr>sensor_reads := rest\<rparr>)"
proof (induction fds arbitrary: temp ms w)
  case Nil
  then show ?case by simp
next
  case (Cons fd fds)
  show ?case
  proof (cases ms)
    case Nil
    with Cons.prems show ?thesis by (simp add: pread_int_def io_bind_def)
  next
    case (Cons m ms')
    with Cons.prems have r:
      "pread_int fd w = (Returned m, w\<lparr>sensor_reads := map Inr ms' @ Inl e # rest\<rparr>)"
      by (simp add: pread_int_def)
    have "hottest (max temp (of_int m / 1000)) fds
            (w\<lparr>sensor_reads := map Inr ms' @ Inl e # rest\<rparr>) =
          (Raised e, w\<lparr>sensor_reads := map Inr ms' @ Inl e # rest, sensor_reads := rest\<rparr>)"
      using Cons.prems Cons by (intro Cons.IH) simp_all
    with r show ?thesis by (simp add: io_bind_def)
  qed
qed

text \<open>
  C3, as the code has it. The loop has no handler: when a read fails in a cycle (after
  some reads of that cycle that succeeded), the exception leaves the loop. Nothing is
  sent in that cycle, no zero stands in for the reading, and the readings that follow
  are not read.
\<close>

theorem C3_failed_read_ends_the_loop:
  assumes "sensor_reads w = map Inr ms @ Inl e # rest" and "length ms < length zones"
  shows "report_loop zones w = (Raised e, w\<lparr>sensor_reads := rest\<rparr>)"
  using hottest_raises [OF assms, of 0]
  by (simp add: report_loop.simps [of zones w])

theorem C3_failed_read_witness:
  "report_loop [2, 3, 4] garbled_read_world =
     (Raised ValueError,
      \<lparr>bus_replies = [BusData [], BusData []], bus_log = [],
       sensor_reads = [Inr 42300, Inr 39100, Inr 45000], thermal_dir = []\<rparr>)"
  using C3_failed_read_ends_the_loop
    [of garbled_read_world "[42300, 39100]" ValueError "[Inr 42300, Inr 39100, Inr 45000]"
        "[2, 3, 4]"]
  by (simp add: garbled_read_world_def)

text \<open>
  C3 as stated fails: with three zones found and the read of the second one failing in
  the first cycle, \<open>temperature_report_loop\<close> raises \<^verbatim>\<open>OSError\<close>. The bus log is
  empty (the claim has 45.0 degrees sent, with 0 for the failed read), and the second
  cycle is never read.
\<close>

theorem C3_counterexample:
  "temperature_report_loop THERMAL_ZONES failed_read_world =
     (Raised OSError,
      \<lparr>bus_replies = [BusData [], BusData []], bus_log = [],
       sensor_reads = [Inr 45000, Inr 42300, Inr 39100, Inr 45000],
       thermal_dir = vivobook_thermal\<rparr>)"
  by code_simp

section \<open>Properties of the backlight effect\<close>

text \<open>
  The temperature of a cycle whose reads all succeed (what \<open>hottest\<close> returns, see
  \<open>hottest_reads\<close>), and the request that \<open>set_keyboard_backlight\<close> sends for a colour
  in solid mode with period 7.
\<close>

definition cycle_temp :: "int list \<Rightarrow> real" where
  "cycle_temp ms = foldl (\<lambda>t m. max t (of_int m / 1000)) 0 ms"

definition backlight_request :: "int list \<Rightarrow> request" where
  "backlight_request rgb =
     \<lparr>addr = 0x76,
      msgs = [Wr ([0x51, 0x07, 0x66, 0x00, 0x10, 0x00, 0xb3, 0x01,
                   rgb ! 0, rgb ! 1, rgb ! 2, 0x55, 7] @ replicate 9 0)]\<rparr>"

lemma py_round_ge: "of_int lo \<le> x \<Longrightarrow> lo \<le> py_round x"
proof -
  assume "of_int lo \<le> x"
  then have "lo \<le> \<lfloor>x\<rfloor>" by (simp add: le_floor_iff)
  then show ?thesis by (simp add: py_round_def Let_def)
qed

lemma py_round_le: "x \<le> of_int hi \<Longrightarrow> py_round x \<le> hi"
proof -
  assume h: "x \<le> of_int hi"
  then have f: "\<lfloor>x\<rfloor> \<le> hi" by (simp add: floor_le_iff)
  show ?thesis
  proof (cases "x - of_int \<lfloor>x\<rfloor> < 1 / 2")
    case True
    with f show ?thesis by (simp add: py_round_def Let_def)
  next
    case False
    then have "of_int \<lfloor>x\<rfloor> < x" by linarith
    with h have "of_int \<lfloor>x\<rfloor> < (of_int hi :: real)" by linarith
    then have "\<lfloor>x\<rfloor> < hi" by simp
    then show ?thesis by (simp add: py_round_def Let_def)
  qed
qed

lemma py_round_byte: "0 \<le> x \<Longrightarrow> x \<le> 255 \<Longrightarrow> is_byte (py_round x)"
  using py_round_ge [of 0 x] py_round_le [of x 255] by (simp add: is_byte_def)

lemma fire_rgb_bytes:
  "length (fire_rgb temp) = 3 \<and> is_byte (fire_rgb temp ! 0) \<and> is_byte (fire_rgb temp ! 1)
     \<and> is_byte (fire_rgb temp ! 2)"
proof -
  define frac where "frac = min (max ((temp - 40) / 30) 0) 1"
  define frac2 where "frac2 = min (max ((temp - 55) / 30) 0) 1"
  have f: "0 \<le> frac" "frac \<le> 1" and f2: "0 \<le> frac2" "frac2 \<le> 1"
    by (simp_all add: frac_def frac2_def)
  have "frac * frac \<le> 1 * 1"
    using f by (intro mult_mono) simp_all
  then have g: "0 \<le> frac * frac * 0.5 * 255" "frac * frac * 0.5 * 255 \<le> 255"
    using f by simp_all
  have "fire_rgb temp =
      [py_round (frac * 1.0 * 255), py_round (frac * frac * 0.5 * 255), py_round (frac2 * 255)]"
    by (simp add: fire_rgb_def Let_def frac_def frac2_def)
  moreover have "is_byte (py_round (frac * 1.0 * 255))"
    using f by (intro py_round_byte) simp_all
  moreover have "is_byte (py_round (frac * frac * 0.5 * 255))"
    using g by (intro py_round_byte)
  moreover have "is_byte (py_round (frac2 * 255))"
    using f2 by (intro py_round_byte) simp_all
  ultimately show ?thesis by simp
qed

lemma fire_rgb_not_initial: "fire_rgb temp \<noteq> [256, 256, 256]"
proof
  assume "fire_rgb temp = [256, 256, 256]"
  then have "fire_rgb temp ! 0 = 256" by simp
  with fire_rgb_bytes [of temp] show False by (simp add: is_byte_def)
qed

lemma set_keyboard_backlight_sent:
  assumes "is_byte r" and "is_byte g" and "is_byte b"
    and "bus_replies w = BusData bs # rs"
  shows "set_keyboard_backlight r g b BACKLIGHT_SOLID 7 w =
           (Returned (), w\<lparr>bus_replies := rs, bus_log := bus_log w @ [backlight_request [r, g, b]]\<rparr>)"
  using assms
  by (simp add: set_keyboard_backlight_def Let_def transfer_def new_request_def seg_ok_def
      is_byte_def io_defs send_def backlight_request_def FAN_ADDR_def BACKLIGHT_SOLID_def
      list_all_iff)

lemma hottest_no_reads:
  "sensor_reads w = [] \<Longrightarrow> fds \<noteq> [] \<Longrightarrow> hottest temp fds w = (Pending, w)"
  by (cases fds) (simp_all add: pread_int_def io_bind_def)

lemma remdups_adj_head: "remdups_adj (x # xs) = x # tl (remdups_adj (x # xs))"
  by (cases xs) simp_all

lemma fire_rgb_list: "[fire_rgb t ! 0, fire_rgb t ! Suc 0, fire_rgb t ! 2] = fire_rgb t"
proof -
  obtain r g b where "fire_rgb t = [r, g, b]"
    by (simp add: fire_rgb_def Let_def)
  then show ?thesis by simp
qed

lemma fire_loop_run:
  assumes z: "zones \<noteq> []"
  shows "list_all (\<lambda>c. length c = length zones) cycles \<Longrightarrow>
     sensor_reads w = map Inr (concat cycles) \<Longrightarrow>
     bus_replies w = map BusData bss \<Longrightarrow> length cycles \<le> length bss \<Longrightarrow>
     fst (fire_loop zones cur w) = Pending \<and>
     bus_log (snd (fire_loop zones cur w)) =
       bus_log w @ map backlight_request
         (tl (remdups_adj (cur # map (\<lambda>c. fire_rgb (cycle_temp c)) cycles)))"
proof (induction cycles arbitrary: cur w bss)
  case Nil
  then have "hottest 0 zones w = (Pending, w)"
    using z by (intro hottest_no_reads) simp_all
  then show ?case
    using z by (simp add: fire_loop.simps [of zones cur w])
next
  case (Cons c cycles)
  let ?new = "fire_rgb (cycle_temp c)"
  let ?w1 = "w\<lparr>sensor_reads := map Inr (concat cycles)\<rparr>"
  have len: "length c = length zones" and rest: "list_all (\<lambda>c. length c = length zones) cycles"
    using Cons.prems(1) by simp_all
  have "sensor_reads w = map Inr c @ map Inr (concat cycles)"
    using Cons.prems(2) by simp
  then have h: "hottest 0 zones w = (Returned (cycle_temp c), ?w1)"
    using len by (simp add: hottest_reads cycle_temp_def)
  show ?case
  proof (cases "?new = cur")
    case True
    have step: "fire_loop zones cur w = fire_loop zones cur ?w1"
      using z h True by (simp add: fire_loop.simps [of zones cur w])
    have "fst (fire_loop zones cur ?w1) = Pending \<and>
      bus_log (snd (fire_loop zones cur ?w1)) =
        bus_log ?w1 @ map backlight_request
          (tl (remdups_adj (cur # map (\<lambda>c. fire_rgb (cycle_temp c)) cycles)))"
      using rest Cons.prems(3,4) by (intro Cons.IH [of ?w1 bss]) simp_all
    with step True show ?thesis by simp
  next
    case False
    obtain bs bss' where bss: "bss = bs # bss'"
      using Cons.prems(4) by (cases bss) auto
    let ?w2 = "?w1\<lparr>bus_replies := map BusData bss',
                    bus_log := bus_log ?w1 @ [backlight_request ?new]\<rparr>"
    have "set_keyboard_backlight (?new ! 0) (?new ! 1) (?new ! 2) BACKLIGHT_SOLID 7 ?w1 =
        (Returned (), ?w1\<lparr>bus_replies := map BusData bss',
           bus_log := bus_log ?w1 @ [backlight_request [?new ! 0, ?new ! 1, ?new ! 2]]\<rparr>)"
      using fire_rgb_bytes [of "cycle_temp c"] Cons.prems(3) bss
      by (intro set_keyboard_backlight_sent) simp_all
    then have step: "fire_loop zones cur w = fire_loop zones ?new ?w2"
      using z h False by (simp add: fire_loop.simps [of zones cur w] fire_rgb_list Let_def)
    define writes where "writes = map (\<lambda>c. fire_rgb (cycle_temp c)) cycles"
    have ih: "fst (fire_loop zones ?new ?w2) = Pending \<and>
      bus_log (snd (fire_loop zones ?new ?w2)) =
        bus_log ?w2 @ map backlight_request (tl (remdups_adj (?new # writes)))"
      unfolding writes_def
      using rest Cons.prems(4) bss by (intro Cons.IH [of ?w2 bss']) simp_all
    obtain ys where ys: "remdups_adj (?new # writes) = ?new # ys"
      using remdups_adj_head [of ?new writes] by blast
    then have "map backlight_request (remdups_adj (?new # writes)) =
        backlight_request ?new # map backlight_request (tl (remdups_adj (?new # writes)))"
      by simp
    moreover have "tl (remdups_adj (cur # ?new # writes)) = remdups_adj (?new # writes)"
      using False by simp
    ultimately have "bus_log ?w2 @ map backlight_request (tl (remdups_adj (?new # writes))) =
        bus_log w @ map backlight_request (tl (remdups_adj (cur # ?new # writes)))"
      by simp
    with ih step show ?thesis
      by (simp add: writes_def)
  qed
qed

lemma remdups_adj_initial:
  "list_all (\<lambda>x. x \<noteq> s) xs \<Longrightarrow> tl (remdups_adj (s # xs)) = remdups_adj xs"
  by (cases xs) auto

text \<open>
  C8. Take a loop over some zones whose reads succeed for the cycles listed in
  \<open>cycles\<close> (the millidegrees of each zone, cycle by cycle) and a bus that accepts one
  request for each cycle at least. The loop is then still running when the readings
  are used up, and the backlight requests it has issued are the colours of the cycles
  with every run of equal neighbours reduced to one: a cycle writes exactly when its
  colour differs from the last one written, and the first cycle always writes. In
  particular a list of identical cycles produces one write.
\<close>

theorem C8_backlight_written_on_change:
  assumes "zones \<noteq> []"
    and "list_all (\<lambda>c. length c = length zones) cycles"
    and "sensor_reads w = map Inr (concat cycles)"
    and "bus_replies w = map BusData bss" and "length cycles \<le> length bss"
  shows "fst (fire_loop zones [256, 256, 256] w) = Pending \<and>
     bus_log (snd (fire_loop zones [256, 256, 256] w)) =
       bus_log w @ map backlight_request (remdups_adj (map (\<lambda>c. fire_rgb (cycle_temp c)) cycles)) \<and>
     (\<forall>c n. cycles = replicate (Suc n) c \<longrightarrow>
        bus_log (snd (fire_loop zones [256, 256, 256] w)) =
          bus_log w @ [backlight_request (fire_rgb (cycle_temp c))])"
proof -
  have "list_all (\<lambda>x. x \<noteq> [256, 256, 256]) (map (\<lambda>c. fire_rgb (cycle_temp c)) cycles)"
    by (simp add: list_all_iff fire_rgb_not_initial)
  then have "tl (remdups_adj ([256, 256, 256] # map (\<lambda>c. fire_rgb (cycle_temp c)) cycles)) =
      remdups_adj (map (\<lambda>c. fire_rgb (cycle_temp c)) cycles)"
    by (rule remdups_adj_initial)
  with fire_loop_run [OF assms, of "[256, 256, 256]"]
  have run: "fst (fire_loop zones [256, 256, 256] w) = Pending \<and>
     bus_log (snd (fire_loop zones [256, 256, 256] w)) =
       bus_log w @ map backlight_request (remdups_adj (map (\<lambda>c. fire_rgb (cycle_temp c)) cycles))"
    by simp
  moreover have "bus_log (snd (fire_loop zones [256, 256, 256] w)) =
      bus_log w @ [backlight_request (fire_rgb (cycle_temp c))]"
    if "cycles = replicate (Suc n) c" for c n
  proof -
    have "remdups_adj (map (\<lambda>c. fire_rgb (cycle_temp c)) cycles) = [fire_rgb (cycle_temp c)]"
      unfolding that map_replicate
      using remdups_adj_replicate [of "Suc n" "fire_rgb (cycle_temp c)"] by simp
    with run show ?thesis by simp
  qed
  ultimately show ?thesis by blast
qed

theorem C8_backlight_witness:
  "fst (fire_loop [5] [256, 256, 256] steady_world) = Pending \<and>
   bus_log (snd (fire_loop [5] [256, 256, 256] steady_world)) =
     [backlight_request [51, 5, 0], backlight_request [255, 128, 128]]"
  using C8_backlight_written_on_change
    [of "[5]" "[[46000], [46000], [46000], [70000]]" steady_world "[[], [], [], []]"]
  by (simp add: steady_world_def cycle_temp_def fire_rgb_def Let_def py_round_def)

section \<open>Properties of the calibration\<close>

subsection \<open>The mode that the controller has been given\<close>

text \<open>
  The fan mode is read off the bus log, the way \<open>eccw\<close> talks to the controller: a
  write of \<^verbatim>\<open>ecwb\<close> puts a value into one of the window registers \<open>0xc4:0x30\<close> to
  \<open>0xc4:0x32\<close>, and the command byte 0x01 in register 0x30 completes an indexed write,
  which stores the value in register 0x32 under the index in register 0x31. The mode is
  what indexed register 0x82 holds, the register that \<open>set_fan_mode\<close> writes; reads
  and requests to the fan address change nothing.
\<close>

type_synonym ec_view = "(int \<Rightarrow> int) \<times> (int \<Rightarrow> int option)"

definition ec_window_write :: "request \<Rightarrow> (int \<times> int) option" where
  "ec_window_write r =
     (case msgs r of
        [Wr [c, maj, mn], Wr [d, v]] \<Rightarrow>
          if addr r = EC_ADDR \<and> c = 0x10 \<and> maj = 0xc4 \<and> d = 0x11 then Some (mn, v) else None
      | _ \<Rightarrow> None)"

definition ec_observe :: "ec_view \<Rightarrow> request \<Rightarrow> ec_view" where
  "ec_observe s r =
     (case ec_window_write r of
        None \<Rightarrow> s
      | Some (mn, v) \<Rightarrow>
          (let win = (fst s)(mn := v)
           in if mn = 0x30 \<and> v = 0x01 then (win, (snd s)(win 0x31 \<mapsto> win 0x32))
              else (win, snd s)))"

definition ec_view :: "request list \<Rightarrow> ec_view" where
  "ec_view reqs = foldl ec_observe (\<lambda>_. 0, Map.empty) reqs"

definition commanded_mode :: "request list \<Rightarrow> int option" where
  "commanded_mode reqs = snd (ec_view reqs) 0x82"

subsection \<open>What a call establishes about the controller, however it ends\<close>

text \<open>
  \<open>io_spec P m Q E\<close>: from a world whose log satisfies \<open>P\<close>, the call \<open>m\<close> ends in a
  world whose log satisfies \<open>Q\<close> when it returns and \<open>E\<close> when it raises or is left
  pending.
\<close>

definition io_spec ::
  "(ec_view \<Rightarrow> bool) \<Rightarrow> 'a io \<Rightarrow> ('a \<Rightarrow> ec_view \<Rightarrow> bool) \<Rightarrow> (ec_view \<Rightarrow> bool) \<Rightarrow> bool" where
  "io_spec P m Q E \<longleftrightarrow>
     (\<forall>w r w'. P (ec_view (bus_log w)) \<longrightarrow> m w = (r, w') \<longrightarrow>
        (case r of Returned x \<Rightarrow> Q x (ec_view (bus_log w')) | _ \<Rightarrow> E (ec_view (bus_log w'))))"

lemma io_specI:
  "(\<And>w r w'. P (ec_view (bus_log w)) \<Longrightarrow> m w = (r, w') \<Longrightarrow>
      (case r of Returned x \<Rightarrow> Q x (ec_view (bus_log w')) | _ \<Rightarrow> E (ec_view (bus_log w')))) \<Longrightarrow>
   io_spec P m Q E"
  by (simp add: io_spec_def)

lemma io_specD:
  "io_spec P m Q E \<Longrightarrow> P (ec_view (bus_log w)) \<Longrightarrow> m w = (r, w') \<Longrightarrow>
     (case r of Returned x \<Rightarrow> Q x (ec_view (bus_log w')) | _ \<Rightarrow> E (ec_view (bus_log w')))"
  by (simp add: io_spec_def)

lemma io_spec_bind:
  assumes "io_spec P m Q E" and "\<And>x. io_spec (Q x) (f x) R E"
  shows "io_spec P (io_bind m f) R E"
proof (rule io_specI)
  fix w r w'
  assume p: "P (ec_view (bus_log w))" and run: "io_bind m f w = (r, w')"
  obtain r1 w1 where m: "m w = (r1, w1)" by (cases "m w")
  show "case r of Returned x \<Rightarrow> R x (ec_view (bus_log w')) | _ \<Rightarrow> E (ec_view (bus_log w'))"
  proof (cases r1)
    case (Returned x)
    with m run have "f x w1 = (r, w')" by (simp add: io_bind_def)
    moreover have "Q x (ec_view (bus_log w1))"
      using io_specD [OF assms(1) p m] Returned by simp
    ultimately show ?thesis by (rule io_specD [OF assms(2), rotated])
  next
    case (Raised e)
    with m run have "r = Raised e" "w' = w1" by (simp_all add: io_bind_def)
    with io_specD [OF assms(1) p m] Raised show ?thesis by simp
  next
    case Pending
    with m run have "r = Pending" "w' = w1" by (simp_all add: io_bind_def)
    with io_specD [OF assms(1) p m] Pending show ?thesis by simp
  qed
qed

lemma io_spec_then:
  "io_spec P m (\<lambda>_. Q) E \<Longrightarrow> io_spec Q n R E \<Longrightarrow> io_spec P (io_then m n) R E"
  unfolding io_then_def by (rule io_spec_bind)

lemma io_spec_return: "io_spec (Q x) (io_return x) Q E"
  by (simp add: io_spec_def io_return_def)

lemma io_spec_lift: "io_spec P (io_lift v) (\<lambda>_. P) P"
  by (cases v) (simp_all add: io_spec_def io_lift_def io_return_def io_raise_def)

lemma io_spec_weaken:
  assumes "io_spec P m Q E" and "\<And>s. P' s \<Longrightarrow> P s" and "\<And>x s. Q x s \<Longrightarrow> Q' x s"
    and "\<And>s. E s \<Longrightarrow> E' s"
  shows "io_spec P' m Q' E'"
proof (rule io_specI)
  fix w r w'
  assume "P' (ec_view (bus_log w))" and run: "m w = (r, w')"
  then have "P (ec_view (bus_log w))" by (intro assms(2))
  from io_specD [OF assms(1) this run]
  show "case r of Returned x \<Rightarrow> Q' x (ec_view (bus_log w')) | _ \<Rightarrow> E' (ec_view (bus_log w'))"
    by (cases r) (simp_all add: assms(3,4))
qed

definition ecwb_request :: "int \<Rightarrow> int \<Rightarrow> int \<Rightarrow> request" where
  "ecwb_request maj mn v = \<lparr>addr = EC_ADDR, msgs = [Wr [0x10, maj, mn], Wr [0x11, v]]\<rparr>"

lemma ec_view_snoc: "ec_view (reqs @ [r]) = ec_observe (ec_view reqs) r"
  by (simp add: ec_view_def)

lemma ec_observe_window:
  "ec_observe s (ecwb_request 0xc4 mn v) =
     (if mn = 0x30 \<and> v = 0x01
      then ((fst s)(mn := v), (snd s)(((fst s)(mn := v)) 0x31 \<mapsto> ((fst s)(mn := v)) 0x32))
      else ((fst s)(mn := v), snd s))"
  by (simp add: ec_observe_def ec_window_write_def ecwb_request_def Let_def)

lemma transfer_view:
  assumes "transfer a ss w = (r, w')"
  shows "(ec_view (bus_log w') = ec_view (bus_log w)
          \<or> ec_view (bus_log w') = ec_observe (ec_view (bus_log w)) \<lparr>addr = a, msgs = ss\<rparr>)
       \<and> ((\<exists>bs. r = Returned bs) \<longrightarrow>
            ec_view (bus_log w') = ec_observe (ec_view (bus_log w)) \<lparr>addr = a, msgs = ss\<rparr>)"
proof (cases "list_all seg_ok ss")
  case True
  then have "bus_log w' = bus_log w @ [\<lparr>addr = a, msgs = ss\<rparr>]"
    using transfer_log [OF True, of a w] assms by simp
  then show ?thesis by (simp add: ec_view_snoc)
next
  case False
  with assms show ?thesis
    by (auto simp: transfer_def new_request_def io_defs)
qed

lemma ecwb_spec:
  "io_spec (\<lambda>s. Q (ec_observe s (ecwb_request maj mn v)) \<and> E s
                 \<and> E (ec_observe s (ecwb_request maj mn v)))
     (ecwb maj mn v) (\<lambda>_. Q) E"
proof (rule io_specI)
  fix w :: world and r :: "unit outcome" and w' :: world
  let ?s = "ec_view (bus_log w)"
  assume pre: "Q (ec_observe ?s (ecwb_request maj mn v)) \<and> E ?s
      \<and> E (ec_observe ?s (ecwb_request maj mn v))"
    and run: "ecwb maj mn v w = (r, w')"
  obtain r1 w1 where t: "transfer EC_ADDR [Wr [0x10, maj, mn], Wr [0x11, v]] w = (r1, w1)"
    by (cases "transfer EC_ADDR [Wr [0x10, maj, mn], Wr [0x11, v]] w")
  have w1: "w' = w1"
    using run t by (cases r1) (simp_all add: ecwb_def io_defs)
  have same: "(\<exists>x. r = Returned x) \<longleftrightarrow> (\<exists>bs. r1 = Returned bs)"
    using run t by (cases r1) (auto simp: ecwb_def io_defs)
  from transfer_view [OF t] pre w1 same
  show "case r of Returned x \<Rightarrow> Q (ec_view (bus_log w')) | _ \<Rightarrow> E (ec_view (bus_log w'))"
    by (cases r) (auto simp: ecwb_request_def)
qed

lemma ecrb_view:
  assumes "ecrb maj mn w = (r, w')"
  shows "ec_view (bus_log w') = ec_view (bus_log w)"
proof -
  obtain r1 w1 where t: "transfer EC_ADDR [Wr [0x10, maj, mn], Wr [0x11], Rd 1] w = (r1, w1)"
    by (cases "transfer EC_ADDR [Wr [0x10, maj, mn], Wr [0x11], Rd 1] w")
  have "w' = w1"
    using assms t by (cases r1) (simp_all add: ecrb_def io_defs)
  moreover have "ec_observe s \<lparr>addr = EC_ADDR, msgs = [Wr [0x10, maj, mn], Wr [0x11], Rd 1]\<rparr> = s"
    for s
    by (simp add: ec_observe_def ec_window_write_def)
  ultimately show ?thesis
    using transfer_view [OF t] by auto
qed

lemma ec_settle_view: "ec_settle w = (r, w') \<Longrightarrow> ec_view (bus_log w') = ec_view (bus_log w)"
proof (induction w rule: ec_settle.induct)
  case (1 w)
  obtain r1 w1 where e: "ecrb 0xc4 0x30 w = (r1, w1)"
    by (cases "ecrb 0xc4 0x30 w")
  have v1: "ec_view (bus_log w1) = ec_view (bus_log w)"
    using e by (rule ecrb_view)
  show ?case
  proof (cases r1)
    case (Returned v)
    show ?thesis
    proof (cases "v = 0")
      case True
      with e Returned "1.prems" v1 show ?thesis
        by (simp add: ec_settle.simps [of w])
    next
      case False
      with e Returned "1.prems" have "ec_settle w1 = (r, w')"
        by (simp add: ec_settle.simps [of w])
      from "1.IH" [OF e [symmetric] Returned False this] v1 show ?thesis
        by simp
    qed
  next
    case (Raised x)
    with e "1.prems" v1 show ?thesis by (simp add: ec_settle.simps [of w])
  next
    case Pending
    with e "1.prems" v1 show ?thesis by (simp add: ec_settle.simps [of w])
  qed
qed

lemma ec_settle_spec: "io_spec P ec_settle (\<lambda>_. P) P"
  by (rule io_specI) (auto dest: ec_settle_view split: outcome.splits)

definition mode_is :: "int option \<Rightarrow> ec_view \<Rightarrow> bool" where
  "mode_is x s \<longleftrightarrow> snd s 0x82 = x"

lemma eccw_keeps_mode:
  assumes "a2 \<noteq> 0x82"
  shows "io_spec (mode_is x) (eccw 0x01 a2 v) (\<lambda>_. mode_is x) (mode_is x)"
proof -
  let ?A1 = "\<lambda>s. mode_is x s \<and> fst s 0x31 = a2"
  have w31: "io_spec (mode_is x) (ecwb 0xc4 0x31 a2) (\<lambda>_. ?A1) (mode_is x)"
    by (rule io_spec_weaken [OF ecwb_spec [where Q = ?A1 and E = "mode_is x"]])
       (simp_all add: ec_observe_window mode_is_def)
  have w32: "io_spec ?A1 (ecwb 0xc4 0x32 v) (\<lambda>_. ?A1) (mode_is x)"
    by (rule io_spec_weaken [OF ecwb_spec [where Q = ?A1 and E = "mode_is x"]])
       (simp_all add: ec_observe_window mode_is_def)
  have w30: "io_spec ?A1 (ecwb 0xc4 0x30 0x01) (\<lambda>_. mode_is x) (mode_is x)"
    using assms
    by (intro io_spec_weaken [OF ecwb_spec [where Q = "mode_is x" and E = "mode_is x"]])
       (simp_all add: ec_observe_window mode_is_def)
  show ?thesis
    unfolding eccw_def
    by (intro io_spec_then [OF ec_settle_spec] io_spec_then [OF w31] io_spec_then [OF w32]
        io_spec_then [OF w30] ec_settle_spec)
qed

lemma eccw_sets_mode:
  "io_spec (\<lambda>s. True) (eccw 0x01 0x82 v) (\<lambda>_. mode_is (Some v)) (\<lambda>s. True)"
proof -
  let ?A1 = "\<lambda>s::ec_view. fst s 0x31 = 0x82"
  let ?A2 = "\<lambda>s::ec_view. fst s 0x31 = 0x82 \<and> fst s 0x32 = v"
  let ?T = "\<lambda>s::ec_view. True"
  have w31: "io_spec ?T (ecwb 0xc4 0x31 0x82) (\<lambda>_. ?A1) ?T"
    by (rule io_spec_weaken [OF ecwb_spec [where Q = ?A1 and E = ?T]])
       (simp_all add: ec_observe_window)
  have w32: "io_spec ?A1 (ecwb 0xc4 0x32 v) (\<lambda>_. ?A2) ?T"
    by (rule io_spec_weaken [OF ecwb_spec [where Q = ?A2 and E = ?T]])
       (simp_all add: ec_observe_window)
  have w30: "io_spec ?A2 (ecwb 0xc4 0x30 0x01) (\<lambda>_. mode_is (Some v)) ?T"
    by (rule io_spec_weaken [OF ecwb_spec [where Q = "mode_is (Some v)" and E = ?T]])
       (simp_all add: ec_observe_window mode_is_def)
  have last: "io_spec (mode_is (Some v)) ec_settle (\<lambda>_. mode_is (Some v)) ?T"
    by (rule io_spec_weaken [OF ec_settle_spec [where P = "mode_is (Some v)"]]) simp_all
  show ?thesis
    unfolding eccw_def
    by (intro io_spec_then [OF ec_settle_spec] io_spec_then [OF w31] io_spec_then [OF w32]
        io_spec_then [OF w30] last)
qed

lemma inv_return: "io_spec P (io_return x) (\<lambda>_. P) P"
  by (simp add: io_spec_def io_return_def)

lemma inv_bind:
  "io_spec P m (\<lambda>_. P) P \<Longrightarrow> (\<And>x. io_spec P (f x) (\<lambda>_. P) P) \<Longrightarrow>
     io_spec P (io_bind m f) (\<lambda>_. P) P"
  by (rule io_spec_bind)

lemma inv_then:
  "io_spec P m (\<lambda>_. P) P \<Longrightarrow> io_spec P n (\<lambda>_. P) P \<Longrightarrow>
     io_spec P (io_then m n) (\<lambda>_. P) P"
  by (rule io_spec_then)

lemma inv_lift: "io_spec P (io_lift v) (\<lambda>_. P) P"
  by (rule io_spec_lift)

lemma set_fan_speed_keeps_mode:
  "io_spec (mode_is x) (set_fan_speed j i) (\<lambda>_. mode_is x) (mode_is x)"
  unfolding set_fan_speed_def
  by (intro inv_then eccw_keeps_mode) simp_all

lemma get_fan_rpm_view:
  assumes "get_fan_rpm j w = (r, w')"
  shows "ec_view (bus_log w') = ec_view (bus_log w)"
proof -
  obtain r1 w1 where t: "transfer FAN_ADDR [Wr [0x22, j + 1], Rd 3] w = (r1, w1)"
    by (cases "transfer FAN_ADDR [Wr [0x22, j + 1], Rd 3] w")
  have "w' = w1"
    using assms t by (cases r1) (simp_all add: get_fan_rpm_def io_defs)
  moreover have "ec_observe s \<lparr>addr = FAN_ADDR, msgs = [Wr [0x22, j + 1], Rd 3]\<rparr> = s" for s
    by (simp add: ec_observe_def ec_window_write_def)
  ultimately show ?thesis
    using transfer_view [OF t] by auto
qed

lemma get_fan_rpm_spec: "io_spec P (get_fan_rpm j) (\<lambda>_. P) P"
  by (rule io_specI) (auto dest: get_fan_rpm_view split: outcome.splits)

lemma io_foreach_spec:
  "(\<And>x. io_spec P (f x) (\<lambda>_. P) P) \<Longrightarrow> io_spec P (io_foreach xs f) (\<lambda>_. P) P"
proof (induction xs)
  case Nil
  show ?case by (simp add: inv_return)
next
  case (Cons x xs)
  show ?case
    by (simp, rule inv_then [OF Cons.prems Cons.IH [OF Cons.prems]])
qed

lemma read_max_speeds_spec: "io_spec P (read_max_speeds js speeds) (\<lambda>_. P) P"
proof (induction js arbitrary: speeds)
  case Nil
  show ?case by (simp add: inv_return)
next
  case (Cons j js)
  show ?case
    by (simp, rule inv_bind [OF get_fan_rpm_spec Cons.IH])
qed

lemma sample_fans_spec: "io_spec P (sample_fans i js data) (\<lambda>_. P) P"
proof (induction js arbitrary: data)
  case Nil
  show ?case by (simp add: inv_return)
next
  case (Cons j js)
  show ?case
    by (simp, rule inv_bind [OF get_fan_rpm_spec Cons.IH])
qed

lemma sweep_down_keeps_mode:
  "io_spec (mode_is x) (sweep_down duties fan_ids data) (\<lambda>_. mode_is x) (mode_is x)"
proof (induction duties arbitrary: data)
  case Nil
  show ?case by (simp add: inv_return)
next
  case (Cons i duties)
  show ?case
    by (simp, intro inv_then inv_bind io_foreach_spec set_fan_speed_keeps_mode
        sample_fans_spec Cons.IH)
qed

lemma find_spins_spec: "io_spec P (find_spins i js first_spins) (\<lambda>_. P) P"
proof (induction js arbitrary: first_spins)
  case Nil
  show ?case by (simp add: inv_return)
next
  case (Cons j js)
  show ?case
  proof (cases "first_spins j = 255")
    case True
    then show ?thesis
      by (simp, intro inv_bind [OF get_fan_rpm_spec] Cons.IH)
  next
    case False
    then show ?thesis by (simp add: Cons.IH)
  qed
qed

lemma sweep_up_keeps_mode:
  "io_spec (mode_is x) (sweep_up duties fan_ids first_spins) (\<lambda>_. mode_is x) (mode_is x)"
proof (induction duties arbitrary: first_spins)
  case Nil
  show ?case by (simp add: inv_return)
next
  case (Cons i duties)
  have step: "io_spec (mode_is x)
      (if 255 \<notin> set (map spins fan_ids) then io_return spins else sweep_up duties fan_ids spins)
      (\<lambda>_. mode_is x) (mode_is x)" for spins
    by (simp add: inv_return Cons.IH)
  show ?case
    by (simp del: set_map, intro inv_then inv_bind io_foreach_spec
        set_fan_speed_keeps_mode find_spins_spec step)
qed

lemma calibration_sweeps_keeps_mode:
  "io_spec (mode_is x) (calibration_sweeps polyfit fan_ids step) (\<lambda>_. mode_is x) (mode_is x)"
  unfolding calibration_sweeps_def Let_def
  by (intro inv_then inv_bind io_foreach_spec set_fan_speed_keeps_mode
      read_max_speeds_spec inv_lift sweep_down_keeps_mode sweep_up_keeps_mode
      inv_return)

lemma set_fan_mode_Returned:
  "set_fan_mode mode w = (Returned u, w') \<Longrightarrow> commanded_mode (bus_log w') = Some mode"
  using io_specD [OF eccw_sets_mode [of mode], where w = w and r = "Returned u" and w' = w']
  by (simp add: set_fan_mode_def commanded_mode_def mode_is_def)

text \<open>
  C4, as the code has it. \<open>measure_fan_model\<close> has no handler and no \<^verbatim>\<open>finally\<close>: the
  switch back to Auto is its last statement. After the switch to Manual has gone
  through, the mode is Auto again whenever the function returns; and whenever a step
  between the two switches raises, the function raises the same exception at once, with
  nothing more sent, and the mode that the controller has been given is still Manual.
\<close>

theorem C4_auto_restored_only_on_return:
  assumes "set_fan_mode FAN_MODE_MANUAL w = (Returned (), w1)"
  shows "(\<forall>found w'. measure_fan_model polyfit fan_ids step w = (Returned found, w') \<longrightarrow>
            commanded_mode (bus_log w') = Some FAN_MODE_AUTO) \<and>
         (\<forall>e w2. calibration_sweeps polyfit fan_ids step w1 = (Raised e, w2) \<longrightarrow>
            measure_fan_model polyfit fan_ids step w = (Raised e, w2) \<and>
            commanded_mode (bus_log w2) = Some FAN_MODE_MANUAL)"
proof (intro conjI allI impI)
  fix found w'
  assume "measure_fan_model polyfit fan_ids step w = (Returned found, w')"
  then obtain u w3 where "set_fan_mode FAN_MODE_AUTO w3 = (Returned u, w')"
    by (auto simp: measure_fan_model_def io_return_def
        dest!: io_then_Returned io_bind_Returned)
  then show "commanded_mode (bus_log w') = Some FAN_MODE_AUTO"
    by (rule set_fan_mode_Returned)
next
  fix e w2
  assume c: "calibration_sweeps polyfit fan_ids step w1 = (Raised e, w2)"
  with assms show "measure_fan_model polyfit fan_ids step w = (Raised e, w2)"
    by (simp add: measure_fan_model_def io_defs)
  have "mode_is (Some FAN_MODE_MANUAL) (ec_view (bus_log w1))"
    using set_fan_mode_Returned [OF assms] by (simp add: commanded_mode_def mode_is_def)
  from io_specD [OF calibration_sweeps_keeps_mode this c]
  show "commanded_mode (bus_log w2) = Some FAN_MODE_MANUAL"
    by (simp add: commanded_mode_def mode_is_def)
qed

theorem C4_auto_restored_witness:
  "fst (measure_fan_model no_fit [0] 253 (idle_bus 54)) = Returned [(0, (0, 0, 0), 1, 1, 8208)] \<and>
   commanded_mode (bus_log (snd (measure_fan_model no_fit [0] 253 (idle_bus 54)))) =
     Some FAN_MODE_AUTO \<and>
   fst (measure_fan_model no_fit [0] 253 (failing_bus 20)) = Raised OSError \<and>
   commanded_mode (bus_log (snd (measure_fan_model no_fit [0] 253 (failing_bus 20)))) =
     Some FAN_MODE_MANUAL"
proof -
  have "fst (set_fan_mode FAN_MODE_MANUAL (idle_bus 54)) = Returned ()"
    by code_simp
  then have m1: "set_fan_mode FAN_MODE_MANUAL (idle_bus 54) =
      (Returned (), snd (set_fan_mode FAN_MODE_MANUAL (idle_bus 54)))"
    by (simp add: prod_eq_iff)
  have r1: "fst (measure_fan_model no_fit [0] 253 (idle_bus 54)) =
      Returned [(0, (0, 0, 0), 1, 1, 8208)]"
    by code_simp
  then have "measure_fan_model no_fit [0] 253 (idle_bus 54) =
      (Returned [(0, (0, 0, 0), 1, 1, 8208)], snd (measure_fan_model no_fit [0] 253 (idle_bus 54)))"
    by (simp add: prod_eq_iff)
  with C4_auto_restored_only_on_return [OF m1, of no_fit "[0]" 253]
  have a: "commanded_mode (bus_log (snd (measure_fan_model no_fit [0] 253 (idle_bus 54)))) =
      Some FAN_MODE_AUTO"
    by blast
  have "fst (set_fan_mode FAN_MODE_MANUAL (failing_bus 20)) = Returned ()"
    by code_simp
  then have m2: "set_fan_mode FAN_MODE_MANUAL (failing_bus 20) =
      (Returned (), snd (set_fan_mode FAN_MODE_MANUAL (failing_bus 20)))"
    by (simp add: prod_eq_iff)
  have "fst (calibration_sweeps no_fit [0] 253 (snd (set_fan_mode FAN_MODE_MANUAL (failing_bus 20))))
      = Raised OSError"
    by code_simp
  then have "calibration_sweeps no_fit [0] 253 (snd (set_fan_mode FAN_MODE_MANUAL (failing_bus 20)))
      = (Raised OSError,
         snd (calibration_sweeps no_fit [0] 253 (snd (set_fan_mode FAN_MODE_MANUAL (failing_bus 20)))))"
    by (simp add: prod_eq_iff)
  with C4_auto_restored_only_on_return [OF m2, of no_fit "[0]" 253]
  have "measure_fan_model no_fit [0] 253 (failing_bus 20) =
      (Raised OSError,
       snd (calibration_sweeps no_fit [0] 253 (snd (set_fan_mode FAN_MODE_MANUAL (failing_bus 20)))))
    \<and> commanded_mode (bus_log
         (snd (calibration_sweeps no_fit [0] 253 (snd (set_fan_mode FAN_MODE_MANUAL (failing_bus 20))))))
       = Some FAN_MODE_MANUAL"
    by blast
  then have "fst (measure_fan_model no_fit [0] 253 (failing_bus 20)) = Raised OSError \<and>
      commanded_mode (bus_log (snd (measure_fan_model no_fit [0] 253 (failing_bus 20)))) =
        Some FAN_MODE_MANUAL"
    by simp
  with r1 a show ?thesis by simp
qed

text \<open>
  C4 as stated fails: called as \<open>main\<close> calls it for the two fans of the Vivobook, with
  an \<^verbatim>\<open>ioctl\<close> that fails at the first request of the downward sweep (after the
  switch to Manual, the spin-up and the two RPM reads, 27 requests), the function
  raises \<^verbatim>\<open>OSError\<close> and the mode that the controller was given last is Manual (2).
\<close>

theorem C4_counterexample:
  "fst (measure_fan_model no_fit [0, 1] 1 (failing_bus 27)) = Raised OSError \<and>
   commanded_mode (bus_log (snd (measure_fan_model no_fit [0, 1] 1 (failing_bus 27)))) = Some 2"
  by code_simp

text \<open>
  The bus need not fail for that: when no fan ever reads a non-zero RPM, the index into
  the empty array raises \<^verbatim>\<open>IndexError\<close> after the downward sweep (here with a step of
  127), and the fans stay in Manual mode, at the last duty of the sweep.
\<close>

lemma stalled_fans_leave_manual:
  "fst (measure_fan_model no_fit [0, 1] 127 (stalled_bus 100)) = Raised IndexError \<and>
   commanded_mode (bus_log (snd (measure_fan_model no_fit [0, 1] 127 (stalled_bus 100)))) =
     Some 2"
  by code_simp

section \<open>Properties of the command line\<close>

text \<open>
  C10. Whenever \<open>main\<close> returns, it returns 0 if there was no argument and 1 otherwise:
  after every subcommand that completes without raising (recognised or not), and so the
  script exits with status 1 even on success, and with 0 only when there is no
  argument.
\<close>

theorem C10_main_returns_one:
  assumes "main info i2c_fd polyfit args w = (Returned status, w')"
  shows "status = (if args = [] then 0 else 1) \<and>
         tool_exit info i2c_fd polyfit args w = (Raised (SystemExit status), w')"
proof
  show "status = (if args = [] then 0 else 1)"
  proof (cases "args = []")
    case True
    with assms show ?thesis by (simp add: main_def io_return_def)
  next
    case False
    from assms False obtain inf where inf: "info = Some inf"
      by (cases info) (auto simp: main_def io_raise_def)
    have "status = 1"
      using assms False inf
      by (auto simp: main_def io_return_def io_raise_def
          split: if_splits option.splits prod.splits
          dest!: io_bind_Returned io_then_Returned)
    with False show ?thesis by simp
  qed
  show "tool_exit info i2c_fd polyfit args w = (Raised (SystemExit status), w')"
    using assms by (simp add: tool_exit_def io_bind_def io_raise_def)
qed

lemma main_kb_example:
  "main (Some vivobook) (Some 3) no_fit [''kb'', ''#f0a''] (idle_bus 1) =
     (Returned 1, \<lparr>bus_replies = [], bus_log = [backlight_request [255, 0, 170]],
        sensor_reads = [], thermal_dir = []\<rparr>)"
  by (simp add: main_def io_defs py_index_def py_strip_def parse_colour_def is_hex_digit_def
      py_int16_def hex_digit_val_def is_digit_def set_keyboard_backlight_def transfer_def
      new_request_def seg_ok_def is_byte_def send_def read_length_def idle_bus_def
      backlight_request_def FAN_ADDR_def BACKLIGHT_SOLID_def Let_def list_all_iff)

lemma main_no_arguments:
  "main None None no_fit [] quiet_world = (Returned 0, quiet_world)"
  by (simp add: main_def io_return_def)

theorem C10_main_witness:
  "main (Some vivobook) (Some 3) no_fit [''kb'', ''#f0a''] (idle_bus 1) =
     (Returned 1, \<lparr>bus_replies = [], bus_log = [backlight_request [255, 0, 170]],
        sensor_reads = [], thermal_dir = []\<rparr>) \<and>
   tool_exit (Some vivobook) (Some 3) no_fit [''kb'', ''#f0a''] (idle_bus 1) =
     (Raised (SystemExit 1), \<lparr>bus_replies = [], bus_log = [backlight_request [255, 0, 170]],
        sensor_reads = [], thermal_dir = []\<rparr>) \<and>
   main None None no_fit [] quiet_world = (Returned 0, quiet_world) \<and>
   tool_exit None None no_fit [] quiet_world = (Raised (SystemExit 0), quiet_world)"
  using C10_main_returns_one [OF main_kb_example] C10_main_returns_one [OF main_no_arguments]
    main_kb_example main_no_arguments
  by simp

end
